theory Spec2Isabelle
  imports Main "HOL-Library.Sublist"
begin

section \<open>Texts\<close>

text \<open>
  Python texts are modelled as \<^typ>\<open>string\<close>: each \<^typ>\<open>char\<close> stands for one code
  point below 256.  \<open>startswith\<close>, \<open>endswith\<close> and \<open>in\<close> on texts are
  \<^const>\<open>prefix\<close>, \<^const>\<open>suffix\<close> and \<^const>\<open>sublist\<close>.
\<close>

type_synonym markdown = string
type_synonym html = string
type_synonym url = string

definition code_point :: "char \<Rightarrow> nat" where
  "code_point c = of_char c"

text \<open>\<open>str.isspace\<close> on the code points below 256.\<close>

definition py_isspace :: "char \<Rightarrow> bool" where
  "py_isspace c =
     (let n = code_point c
      in (9 \<le> n \<and> n \<le> 13) \<or> (28 \<le> n \<and> n \<le> 32) \<or> n = 133 \<or> n = 160)"

definition py_lstrip :: "string \<Rightarrow> string" where
  "py_lstrip s = dropWhile py_isspace s"

definition py_rstrip :: "string \<Rightarrow> string" where
  "py_rstrip s = rev (dropWhile py_isspace (rev s))"

definition py_strip :: "string \<Rightarrow> string" where
  "py_strip s = py_rstrip (py_lstrip s)"

text \<open>\<open>str.lower\<close> on the code points below 256: A-Z and the upper-case Latin-1 letters.\<close>

definition lower_char :: "char \<Rightarrow> char" where
  "lower_char c =
     (let n = code_point c
      in if (65 \<le> n \<and> n \<le> 90) \<or> (192 \<le> n \<and> n \<le> 222 \<and> n \<noteq> 215)
         then char_of (n + 32) else c)"

definition py_lower :: "string \<Rightarrow> string" where
  "py_lower s = map lower_char s"

text \<open>The slice \<open>s[3:-4]\<close>: empty when the text has fewer than seven characters.\<close>

definition slice_3_minus_4 :: "string \<Rightarrow> string" where
  "slice_3_minus_4 s = take (length s - 4 - 3) (drop 3 s)"

text \<open>\<open>str(n)\<close> for an integer: decimal digits, with a minus sign when negative.\<close>

definition digit_char :: "nat \<Rightarrow> char" where
  "digit_char d = char_of (48 + d)"

fun show_nat :: "nat \<Rightarrow> string" where
  "show_nat n = (if n < 10 then [digit_char n] else show_nat (n div 10) @ [digit_char (n mod 10)])"

declare show_nat.simps [simp del]

definition show_int :: "int \<Rightarrow> string" where
  "show_int i = (if i < 0 then CHR ''-'' # show_nat (nat (- i)) else show_nat (nat i))"

text \<open>\<open>sep.join(xs)\<close>.\<close>

fun join :: "string \<Rightarrow> string list \<Rightarrow> string" where
  "join sep [] = []"
| "join sep [x] = x"
| "join sep (x # y # ys) = x @ sep @ join sep (y # ys)"

section \<open>JSON texts (\<open>json.loads\<close>)\<close>

text \<open>
  The interpreter bounds what \<open>json.loads\<close> can do: it raises \<open>RecursionError\<close> when
  arrays and objects are nested deeper than the recursion budget left at the call, and
  a plain \<open>ValueError\<close> when an integer literal has more digits than the limit for the
  conversion between integers and decimal texts (4300 by default, never below 640, none
  when switched off or before the limit was introduced).  Both are parameters.
\<close>

record limits =
  max_nesting :: nat
  max_int_digits :: "nat option"

definition digits_exceed :: "limits \<Rightarrow> nat \<Rightarrow> bool" where
  "digits_exceed lim k = (case max_int_digits lim of None \<Rightarrow> False | Some m \<Rightarrow> m < k)"

datatype py_error = RecursionError | IntDigitsError

text \<open>
  The values \<open>json.loads\<close> returns.  A text value is a list of code points, since a
  \<^verbatim>\<open>\uXXXX\<close> escape can name any of them.  An object keeps its members in the order of
  the text; \<open>dict_get\<close> reads the last member with a key, as the dictionary built from
  the members does.  A number with a fraction or an exponent is a float; it is kept as
  its sign, the digits before and behind the point and the exponent.
\<close>

datatype float_lit = Decimal bool string string int | NotANumber | Infinite bool

datatype json =
    JNull
  | JBool bool
  | JInt int
  | JFloat float_lit
  | JString "nat list"
  | JArray "json list"
  | JObject "(nat list \<times> json) list"

text \<open>The outcome of reading one item from the front of a text.\<close>

datatype 'a scan = Scanned 'a string | Invalid | Raises py_error

datatype loads_result = Parsed json | JSONDecodeError | Raised py_error

definition ustr :: "string \<Rightarrow> nat list" where
  "ustr s = map code_point s"

definition json_ws :: "char \<Rightarrow> bool" where
  "json_ws c = (c = CHR '' '' \<or> c = CHR 0x09 \<or> c = CHR 0x0A \<or> c = CHR 0x0D)"

definition skip_ws :: "string \<Rightarrow> string" where
  "skip_ws s = dropWhile json_ws s"

definition is_digit :: "char \<Rightarrow> bool" where
  "is_digit c = (48 \<le> code_point c \<and> code_point c \<le> 57)"

definition digit_val :: "char \<Rightarrow> nat" where
  "digit_val c = code_point c - 48"

definition hex_val :: "char \<Rightarrow> nat option" where
  "hex_val c =
     (let n = code_point c
      in if 48 \<le> n \<and> n \<le> 57 then Some (n - 48)
         else if 65 \<le> n \<and> n \<le> 70 then Some (n - 55)
         else if 97 \<le> n \<and> n \<le> 102 then Some (n - 87)
         else None)"

fun hex4 :: "string \<Rightarrow> (nat \<times> string) option" where
  "hex4 (a # b # c # d # rest) =
     (case (hex_val a, hex_val b, hex_val c, hex_val d) of
        (Some x, Some y, Some z, Some w) \<Rightarrow> Some (((x * 16 + y) * 16 + z) * 16 + w, rest)
      | _ \<Rightarrow> None)"
| "hex4 _ = None"

text \<open>
  The escape \<^verbatim>\<open>\uXXXX\<close>, read after the \<open>u\<close>: a high surrogate directly followed by
  the escape of a low one is joined with it into one code point.
\<close>

definition scan_u :: "string \<Rightarrow> (nat \<times> string) option" where
  "scan_u s =
     (case hex4 s of
        None \<Rightarrow> None
      | Some (uni, r1) \<Rightarrow>
          if 0xD800 \<le> uni \<and> uni \<le> 0xDBFF \<and> prefix [CHR 0x5C, CHR ''u''] r1 then
            (case hex4 (drop 2 r1) of
               None \<Rightarrow> None
             | Some (uni2, r2) \<Rightarrow>
                 if 0xDC00 \<le> uni2 \<and> uni2 \<le> 0xDFFF
                 then Some (0x10000 + (uni - 0xD800) * 1024 + (uni2 - 0xDC00), r2)
                 else Some (uni, r1))
          else Some (uni, r1))"

definition unescape :: "char \<Rightarrow> nat option" where
  "unescape e =
     (if e = CHR 0x22 then Some 0x22
      else if e = CHR 0x5C then Some 0x5C
      else if e = CHR ''/'' then Some 0x2F
      else if e = CHR ''b'' then Some 8
      else if e = CHR ''f'' then Some 12
      else if e = CHR ''n'' then Some 10
      else if e = CHR ''r'' then Some 13
      else if e = CHR ''t'' then Some 9
      else None)"

lemma hex4_length: "hex4 s = Some (u, r) \<Longrightarrow> length r < length s"
  by (cases s rule: hex4.cases) (auto split: option.splits)

lemma scan_u_length: "scan_u s = Some (u, r) \<Longrightarrow> length r < length s"
  unfolding scan_u_def
  by (auto split: option.splits if_splits dest!: hex4_length)

text \<open>
  A text value, read after its opening quote (strict mode: a control character inside
  the quotes is an error).
\<close>

function scan_string :: "string \<Rightarrow> (nat list \<times> string) option" where
  "scan_string [] = None"
| "scan_string (c # cs) =
     (if c = CHR 0x22 then Some ([], cs)
      else if c = CHR 0x5C then
        (case cs of
           [] \<Rightarrow> None
         | e # rest \<Rightarrow>
             if e = CHR ''u'' then
               (case scan_u rest of
                  None \<Rightarrow> None
                | Some (uni, rest') \<Rightarrow>
                    map_option (\<lambda>(s, r). (uni # s, r)) (scan_string rest'))
             else
               (case unescape e of
                  None \<Rightarrow> None
                | Some v \<Rightarrow> map_option (\<lambda>(s, r). (v # s, r)) (scan_string rest)))
      else if code_point c < 32 then None
      else map_option (\<lambda>(s, r). (code_point c # s, r)) (scan_string cs))"
  by pat_completeness auto
termination
  by (relation "measure length") (auto dest: scan_u_length)

text \<open>
  A number: \<^verbatim>\<open>-?(0|[1-9][0-9]*)\<close>, then an optional fraction \<^verbatim>\<open>\.[0-9]+\<close> and an
  optional exponent \<^verbatim>\<open>[eE][-+]?[0-9]+\<close>.
\<close>

definition scan_int_part :: "string \<Rightarrow> (string \<times> string) option" where
  "scan_int_part s =
     (case s of
        [] \<Rightarrow> None
      | d # r \<Rightarrow>
          if d = CHR ''0'' then Some ([d], r)
          else if is_digit d then Some (d # takeWhile is_digit r, dropWhile is_digit r)
          else None)"

definition scan_frac :: "string \<Rightarrow> string \<times> string" where
  "scan_frac s =
     (case s of
        p # d # r \<Rightarrow>
          if p = CHR ''.'' \<and> is_digit d
          then (p # d # takeWhile is_digit r, dropWhile is_digit r) else ([], s)
      | _ \<Rightarrow> ([], s))"

definition scan_exp :: "string \<Rightarrow> string \<times> string" where
  "scan_exp s =
     (case s of
        [] \<Rightarrow> ([], s)
      | e # r \<Rightarrow>
          if e = CHR ''e'' \<or> e = CHR ''E'' then
            (let (sign, r') = (case r of
                                 [] \<Rightarrow> ([], r)
                               | g # r2 \<Rightarrow> if g = CHR ''-'' \<or> g = CHR ''+'' then ([g], r2)
                                            else ([], r))
             in if r' \<noteq> [] \<and> is_digit (hd r')
                then (e # sign @ takeWhile is_digit r', dropWhile is_digit r') else ([], s))
          else ([], s))"

definition nat_of_digits :: "string \<Rightarrow> nat" where
  "nat_of_digits ds = foldl (\<lambda>acc d. acc * 10 + digit_val d) 0 ds"

text \<open>The value of an exponent \<^verbatim>\<open>e-12\<close>; 0 for the empty text.\<close>

definition exponent_value :: "string \<Rightarrow> int" where
  "exponent_value ex =
     (let r = drop 1 ex
      in if prefix ''-'' r then - int (nat_of_digits (drop 1 r))
         else if prefix ''+'' r then int (nat_of_digits (drop 1 r))
         else int (nat_of_digits r))"

definition scan_number :: "limits \<Rightarrow> string \<Rightarrow> json scan" where
  "scan_number lim s =
     (let (neg, s1) = (if prefix ''-'' s then (True, drop 1 s) else (False, s))
      in case scan_int_part s1 of
           None \<Rightarrow> Invalid
         | Some (ds, r1) \<Rightarrow>
             (let (frac, r2) = scan_frac r1; (ex, r3) = scan_exp r2
              in if frac = [] \<and> ex = [] then
                   (if digits_exceed lim (length ds) then Raises IntDigitsError
                    else Scanned
                      (JInt (if neg then - int (nat_of_digits ds) else int (nat_of_digits ds)))
                      r1)
                 else Scanned (JFloat (Decimal neg ds (drop 1 frac) (exponent_value ex))) r3))"

text \<open>
  A value with its remaining text.  The second argument bounds the number of nested
  calls, so that the definition is by recursion on it; \<open>json_loads\<close> starts with more
  than twice the length of the text, and of any two nested calls the outer one has read
  a character.  The third argument is the number of arrays and objects that may
  still be entered.
\<close>

fun parse_value :: "limits \<Rightarrow> nat \<Rightarrow> nat \<Rightarrow> string \<Rightarrow> json scan"
  and parse_members :: "limits \<Rightarrow> nat \<Rightarrow> nat \<Rightarrow> string \<Rightarrow> (nat list \<times> json) list scan"
  and parse_elements :: "limits \<Rightarrow> nat \<Rightarrow> nat \<Rightarrow> string \<Rightarrow> json list scan"
where
  "parse_value lim 0 d s = Invalid"
| "parse_value lim (Suc n) d s =
     (case s of
        [] \<Rightarrow> Invalid
      | c # cs \<Rightarrow>
          if c = CHR 0x22 then
            (case scan_string cs of
               None \<Rightarrow> Invalid
             | Some (str, r) \<Rightarrow> Scanned (JString str) r)
          else if c = CHR ''{'' then
            (case d of
               0 \<Rightarrow> Raises RecursionError
             | Suc d' \<Rightarrow>
                 if prefix ''}'' (skip_ws cs) then Scanned (JObject []) (drop 1 (skip_ws cs))
                 else
                   (case parse_members lim n d' (skip_ws cs) of
                      Scanned ms r \<Rightarrow> Scanned (JObject ms) r
                    | Invalid \<Rightarrow> Invalid
                    | Raises e \<Rightarrow> Raises e))
          else if c = CHR ''['' then
            (case d of
               0 \<Rightarrow> Raises RecursionError
             | Suc d' \<Rightarrow>
                 if prefix '']'' (skip_ws cs) then Scanned (JArray []) (drop 1 (skip_ws cs))
                 else
                   (case parse_elements lim n d' (skip_ws cs) of
                      Scanned es r \<Rightarrow> Scanned (JArray es) r
                    | Invalid \<Rightarrow> Invalid
                    | Raises e \<Rightarrow> Raises e))
          else if prefix ''null'' s then Scanned JNull (drop 4 s)
          else if prefix ''true'' s then Scanned (JBool True) (drop 4 s)
          else if prefix ''false'' s then Scanned (JBool False) (drop 5 s)
          else
            (case scan_number lim s of
               Scanned v r \<Rightarrow> Scanned v r
             | Raises e \<Rightarrow> Raises e
             | Invalid \<Rightarrow>
                 if prefix ''NaN'' s then Scanned (JFloat NotANumber) (drop 3 s)
                 else if prefix ''Infinity'' s then Scanned (JFloat (Infinite False)) (drop 8 s)
                 else if prefix ''-Infinity'' s then Scanned (JFloat (Infinite True)) (drop 9 s)
                 else Invalid))"
| "parse_members lim 0 d s = Invalid"
| "parse_members lim (Suc n) d s =
     (case s of
        [] \<Rightarrow> Invalid
      | q # cs \<Rightarrow>
          if q \<noteq> CHR 0x22 then Invalid
          else
            (case scan_string cs of
               None \<Rightarrow> Invalid
             | Some (key, r1) \<Rightarrow>
                 if \<not> prefix '':'' (skip_ws r1) then Invalid
                 else
                   (case parse_value lim n d (skip_ws (drop 1 (skip_ws r1))) of
                      Invalid \<Rightarrow> Invalid
                    | Raises e \<Rightarrow> Raises e
                    | Scanned v r2 \<Rightarrow>
                        if prefix '','' (skip_ws r2) then
                          (case parse_members lim n d (skip_ws (drop 1 (skip_ws r2))) of
                             Scanned ms r \<Rightarrow> Scanned ((key, v) # ms) r
                           | Invalid \<Rightarrow> Invalid
                           | Raises e \<Rightarrow> Raises e)
                        else if prefix ''}'' (skip_ws r2) then
                          Scanned [(key, v)] (drop 1 (skip_ws r2))
                        else Invalid)))"
| "parse_elements lim 0 d s = Invalid"
| "parse_elements lim (Suc n) d s =
     (case parse_value lim n d s of
        Invalid \<Rightarrow> Invalid
      | Raises e \<Rightarrow> Raises e
      | Scanned v r1 \<Rightarrow>
          if prefix '','' (skip_ws r1) then
            (case parse_elements lim n d (skip_ws (drop 1 (skip_ws r1))) of
               Scanned es r \<Rightarrow> Scanned (v # es) r
             | Invalid \<Rightarrow> Invalid
             | Raises e \<Rightarrow> Raises e)
          else if prefix '']'' (skip_ws r1) then Scanned [v] (drop 1 (skip_ws r1))
          else Invalid)"

declare parse_value.simps [simp del]

definition json_loads :: "limits \<Rightarrow> string \<Rightarrow> loads_result" where
  "json_loads lim s =
     (case parse_value lim (Suc (2 * length s)) (max_nesting lim) (skip_ws s) of
        Scanned v r \<Rightarrow> if skip_ws r = [] then Parsed v else JSONDecodeError
      | Invalid \<Rightarrow> JSONDecodeError
      | Raises e \<Rightarrow> Raised e)"

text \<open>\<open>d.get(key)\<close>: \<open>None\<close> of the map stands for Python's \<open>None\<close> default.\<close>

definition dict_get :: "(nat list \<times> json) list \<Rightarrow> string \<Rightarrow> json option" where
  "dict_get kvs key = map_of (rev kvs) (ustr key)"

text \<open>
  Whether a float is zero.  The conversion of a decimal literal to a double is correctly
  rounded (to the nearest double, and to the even one of two nearest): the result is
  zero exactly when the value of the literal is at most 2 to the power of -1075, half of
  the least positive double.  With \<open>m\<close> the number written by the digits before and
  behind the point and \<open>E\<close> the exponent less the number of digits behind the point, the
  value of the literal is \<open>m\<close> times 10 to the power of \<open>E\<close>.
\<close>

definition float_lit_zero :: "float_lit \<Rightarrow> bool" where
  "float_lit_zero x =
     (case x of
        Decimal neg ds fs e \<Rightarrow>
          (let m = nat_of_digits (ds @ fs); E = e - int (length fs)
           in m = 0 \<or> (E < 0 \<and> m * 2 ^ 1075 \<le> 10 ^ nat (- E)))
      | NotANumber \<Rightarrow> False
      | Infinite neg \<Rightarrow> False)"

text \<open>\<open>x == 0\<close> in Python, where \<open>x\<close> is the result of \<open>d.get(key)\<close>.\<close>

definition eq_zero :: "json option \<Rightarrow> bool" where
  "eq_zero x =
     (case x of
        Some (JInt n) \<Rightarrow> n = 0
      | Some (JBool b) \<Rightarrow> \<not> b
      | Some (JFloat lit) \<Rightarrow> float_lit_zero lit
      | _ \<Rightarrow> False)"

text \<open>Truth value of a Python object (\<open>if not x\<close>).\<close>

definition truthy :: "json \<Rightarrow> bool" where
  "truthy x =
     (case x of
        JNull \<Rightarrow> False
      | JBool b \<Rightarrow> b
      | JInt n \<Rightarrow> n \<noteq> 0
      | JFloat lit \<Rightarrow> \<not> float_lit_zero lit
      | JString s \<Rightarrow> s \<noteq> []
      | JArray xs \<Rightarrow> xs \<noteq> []
      | JObject kvs \<Rightarrow> kvs \<noteq> [])"

section \<open>Content rendering (generate\_draft.py, make\_publish.py, put\_request.py)\<close>

subsection \<open>\<open>json.dumps\<close> and \<open>urllib.parse.quote\<close>\<close>

text \<open>The Python values placed in the dictionaries that are serialised.\<close>

datatype pyval = PStr string | PInt int | PBool bool | PList "pyval list"

definition hex_lower :: "nat \<Rightarrow> char" where
  "hex_lower d = (if d < 10 then char_of (48 + d) else char_of (87 + d))"

definition hex_upper :: "nat \<Rightarrow> char" where
  "hex_upper d = (if d < 10 then char_of (48 + d) else char_of (55 + d))"

text \<open>
  One character of a text under \<open>json.dumps\<close> with \<open>ensure_ascii\<close>: the quote, the
  backslash and the control characters with a short form are escaped by name, the
  printable ASCII characters stand for themselves, every other one becomes
  \<^verbatim>\<open>\u00XX\<close> (lower-case digits).
\<close>

definition escape_char :: "char \<Rightarrow> string" where
  \<open>escape_char c =
     (let n = code_point c
      in if c = CHR 0x22 then [CHR 0x5C, CHR 0x22]
         else if c = CHR 0x5C then [CHR 0x5C, CHR 0x5C]
         else if c = CHR 0x0A then [CHR 0x5C, CHR ''n'']
         else if c = CHR 0x0D then [CHR 0x5C, CHR ''r'']
         else if c = CHR 0x09 then [CHR 0x5C, CHR ''t'']
         else if c = CHR 0x08 then [CHR 0x5C, CHR ''b'']
         else if c = CHR 0x0C then [CHR 0x5C, CHR ''f'']
         else if 32 \<le> n \<and> n \<le> 126 then [c]
         else [CHR 0x5C, CHR ''u'', CHR ''0'', CHR ''0'', hex_lower (n div 16), hex_lower (n mod 16)])\<close>

definition dumps_str :: "string \<Rightarrow> string" where
  \<open>dumps_str s = CHR 0x22 # concat (map escape_char s) @ [CHR 0x22]\<close>

fun dumps_value :: "pyval \<Rightarrow> string" where
  "dumps_value (PStr s) = dumps_str s"
| "dumps_value (PInt i) = show_int i"
| "dumps_value (PBool b) = (if b then ''true'' else ''false'')"
| "dumps_value (PList xs) = ''['' @ join '', '' (map dumps_value xs) @ '']''"

text \<open>\<open>json.dumps\<close> of a dictionary with text keys, in insertion order.\<close>

definition json_dumps :: "(string \<times> pyval) list \<Rightarrow> string" where
  "json_dumps d =
     ''{'' @ join '', '' (map (\<lambda>(k, v). dumps_str k @ '': '' @ dumps_value v) d) @ ''}''"

text \<open>
  \<open>urllib.parse.quote\<close> with its default \<open>safe='/'\<close>: letters, digits and
  \<^verbatim>\<open>_.-~/\<close> stand for themselves; every other character is replaced by the
  percent-escapes of the bytes of its UTF-8 encoding (upper-case digits).
\<close>

definition quote_safe :: "char \<Rightarrow> bool" where
  "quote_safe c =
     (let n = code_point c
      in (48 \<le> n \<and> n \<le> 57) \<or> (65 \<le> n \<and> n \<le> 90) \<or> (97 \<le> n \<and> n \<le> 122) \<or>
         c = CHR ''_'' \<or> c = CHR ''.'' \<or> c = CHR ''-'' \<or> c = CHR ''~'' \<or> c = CHR ''/'')"

definition quote_byte :: "nat \<Rightarrow> string" where
  "quote_byte n = [CHR ''%'', hex_upper (n div 16), hex_upper (n mod 16)]"

definition quote_char :: "char \<Rightarrow> string" where
  "quote_char c =
     (let n = code_point c
      in if quote_safe c then [c]
         else if n < 128 then quote_byte n
         else quote_byte (192 + n div 64) @ quote_byte (128 + n mod 64))"

definition quote :: "string \<Rightarrow> string" where
  "quote s = concat (map quote_char s)"

subsection \<open>The image block\<close>

text \<open>\<open>create_image_block\<close> of generate\_draft.py and make\_publish.py (the same text).\<close>

definition create_image_block :: "url \<Rightarrow> html \<Rightarrow> html" where
  \<open>create_image_block image_url credit_text =
     (let info_dict =
            [(''type'', PStr ''editor-image-node''),
             (''imageUrl'', PStr image_url),
             (''imageCaption'', PStr []),
             (''creditText'', PStr credit_text),
             (''creditUrl'', PStr []),
             (''imagePlatform'', PStr ''SELF_UPLOAD''),
             (''imageOriginalWidth'', PInt 1500),
             (''imageOriginalHeight'', PInt 1000)];
          info_str = quote (json_dumps info_dict)
      in ''<figure>'' @
         ''<div data-editornodeinfo="'' @ info_str @ ''">'' @
         ''<div class="editor-image-wrap">'' @
         ''<div class="editor-image">'' @
         ''<img class="" src="'' @ image_url @ ''" '' @
         ''data-image-caption="" '' @
         ''data-credit-text="'' @ credit_text @ ''" '' @
         ''data-credit-url="" '' @
         ''data-image-platform="SELF_UPLOAD" '' @
         ''data-image-original-width="1500" '' @
         ''data-image-original-height="1000">'' @
         ''</div>'' @
         ''<span class="image-introduction-wrap">'' @
         ''<span class="photo-by">Photo by</span>'' @
         ''<span class="credit-text">'' @ credit_text @ ''</span>'' @
         ''</span>'' @
         ''</div>'' @
         ''</div>'' @
         ''</figure>'')\<close>

text \<open>
  \<open>create_image_block\<close> of put\_request.py, with the dimensions as arguments
  (defaults 1500 and 993).  The decimal notation of an integer with more digits than the
  interpreter's limit cannot be produced: \<open>json.dumps\<close> raises \<open>ValueError\<close>, which is
  the result \<open>None\<close>.  (In the other \<open>create_image_block\<close> the dimensions are 1500 and
  1000, below every limit.)
\<close>

definition int_digits :: "int \<Rightarrow> nat" where
  "int_digits i = length (show_nat (nat \<bar>i\<bar>))"

definition put_create_image_block ::
  "limits \<Rightarrow> url \<Rightarrow> html \<Rightarrow> int \<Rightarrow> int \<Rightarrow> html option" where
  \<open>put_create_image_block lim image_url credit_text width height =
     (if digits_exceed lim (int_digits width) \<or> digits_exceed lim (int_digits height) then None
      else Some (let info_dict =
            [(''type'', PStr ''editor-image-node''),
             (''imageUrl'', PStr image_url),
             (''imageCaption'', PStr []),
             (''creditText'', PStr credit_text),
             (''creditUrl'', PStr []),
             (''imagePlatform'', PStr ''SELF_UPLOAD''),
             (''imageOriginalWidth'', PInt width),
             (''imageOriginalHeight'', PInt height)];
          info_str = quote (json_dumps info_dict)
      in ''<figure>'' @
         ''<div data-editornodeinfo="'' @ info_str @ ''">'' @
         ''<div class="editor-image-wrap">'' @
         ''<div class="editor-image">'' @
         ''<img class="" src="'' @ image_url @ ''" '' @
         ''data-image-caption="" '' @
         ''data-credit-text="'' @ credit_text @ ''" '' @
         ''data-credit-url="" '' @
         ''data-image-platform="SELF_UPLOAD" '' @
         ''data-image-original-width="'' @ show_int width @ ''" '' @
         ''data-image-original-height="'' @ show_int height @ ''">'' @
         ''</div>'' @
         ''<span class="image-introduction-wrap">'' @
         ''<span class="photo-by">Photo by</span>'' @
         ''<span class="credit-text">'' @ credit_text @ ''</span>'' @
         ''</span>'' @
         ''</div>'' @
         ''</div>'' @
         ''</figure>''))\<close>

subsection \<open>Paragraph decoration\<close>

text \<open>
  The lazy group of the pattern \<^verbatim>\<open><p>(.*?)</p>\<close> (with DOTALL) ends at the first
  closing tag: \<open>until_close\<close> splits a text there, or fails when there is none.
\<close>

fun until_close :: "string \<Rightarrow> (string \<times> string) option" where
  "until_close [] = None"
| "until_close (c # cs) =
     (if prefix ''</p>'' (c # cs) then Some ([], drop 4 (c # cs))
      else map_option (\<lambda>(inner, rest). (c # inner, rest)) (until_close cs))"

definition decorated_open :: string where
  \<open>decorated_open =
     ''<p class="NBAIEditor_Theme__paragraph" dir="ltr" style="text-align: start;"><span>''\<close>

definition repl :: "string \<Rightarrow> string" where
  "repl inner = decorated_open @ inner @ ''</span></p>''"

lemma until_close_length:
  "until_close s = Some (inner, rest) \<Longrightarrow> length rest < length s"
proof (induction s arbitrary: inner)
  case Nil
  then show ?case by simp
next
  case (Cons c cs)
  show ?case
  proof (cases "prefix ''</p>'' (c # cs)")
    case True
    with Cons.prems show ?thesis by auto
  next
    case False
    with Cons.prems obtain i where "until_close cs = Some (i, rest)"
      by (auto split: prod.splits)
    from Cons.IH [OF this] show ?thesis by simp
  qed
qed

text \<open>
  \<open>re.sub\<close> scans from the left: where the pattern matches, the match is replaced and
  the scan goes on behind it; elsewhere the character is kept.
\<close>

function wrap_paragraphs :: "html \<Rightarrow> html" where
  "wrap_paragraphs [] = []"
| "wrap_paragraphs (c # cs) =
     (if prefix ''<p>'' (c # cs) then
        (case until_close (drop 3 (c # cs)) of
           Some (inner, rest) \<Rightarrow> repl inner @ wrap_paragraphs rest
         | None \<Rightarrow> c # wrap_paragraphs cs)
      else c # wrap_paragraphs cs)"
  by pat_completeness auto
termination
  by (relation "measure length") (auto dest: until_close_length)

subsection \<open>Credits, style block and assembled content\<close>

text \<open>
  The Markdown converter is a third-party library: it is the parameter \<open>md\<close>, a
  function from the Markdown text to the HTML text the converter returns.

  A credit (\<open>raw_image_credit\<close>, \<open>raw_article_credit\<close>): the converted text, stripped of
  surrounding white space, and of an opening \<^verbatim>\<open><p>\<close> and a closing \<^verbatim>\<open></p>\<close> when it
  starts with the one and ends with the other.
\<close>

definition raw_credit :: "(markdown \<Rightarrow> html) \<Rightarrow> markdown \<Rightarrow> html" where
  "raw_credit md credit =
     (let raw = py_strip (md credit)
      in if prefix ''<p>'' raw \<and> suffix ''</p>'' raw then slice_3_minus_4 raw else raw)"

definition article_credit_html :: "string \<Rightarrow> string" where
  \<open>article_credit_html raw_article_credit =
     ''<p class="NBAIEditor_Theme__paragraph" dir="ltr" style="text-align: start;">'' @
     ''<span>'' @ raw_article_credit @ ''</span></p>''\<close>

definition empty_paragraph :: string where
  \<open>empty_paragraph = ''<p class="NBAIEditor_Theme__paragraph"><br></p>''\<close>

definition style_block :: string where
  \<open>style_block = concat
       [''<style style="display: none">'',
        ''.NBAIEditor_Theme__ol1 {padding: 0 0 0 20px !important;margin: 0 0 24px 0 !important;list-style-position: outside !important;}'',
        ''.NBAIEditor_Theme__ol2 {padding: 0 !important;margin: 0 !important;list-style-type: lower-alpha !important;list-style-position: outside !important;}'',
        ''html body.post #content-div .content ol li ol {margin: 0 !important;}'',
        ''.NBAIEditor_Theme__ol3 {padding: 0 !important;margin: 0 !important;list-style-type: lower-roman !important;list-style-position: outside !important;}'',
        ''.NBAIEditor_Theme__ol4 {padding: 0;margin: 0;list-style-type: upper-roman !important;list-style-position: outside !important;}'',
        ''.NBAIEditor_Theme__ol5 {padding: 0;margin: 0;list-style-type: lower-roman !important;list-style-position: outside !important;}'',
        ''.NBAIEditor_Theme__ul {padding: 0 !important;margin: 0 !important;margin-left: 20px !important;list-style-position: outside !important;}'',
        ''@media all and (max-width: 600px) {.NBAIEditor_Theme__ul {margin-left: 14px !important;}}'',
        ''.NBAIEditor_Theme__ul li .NBAIEditor_Theme__ul li .NBAIEditor_Theme__ul li::before {display: none !important;}'',
        ''.NBAIEditor_Theme__ul .NBAIEditor_Theme__ul {list-style-type: circle !important;margin-left: 0 !important;}'',
        ''.NBAIEditor_Theme__ul .NBAIEditor_Theme__ul .NBAIEditor_Theme__ul {list-style-type: square !important;margin-left: 0 !important;}'',
        ''html body.post #content-div .content ul li ul li ul {margin-left: 0 !important;}'',
        ''.ContentEditable__root > ul {margin-bottom: 24px;padding: 0 0 0 20px;}'',
        ''.NBAIEditor_Theme__listItem {margin: 0 !important;padding: 0 !important;}'',
        ''.NBAIEditor_Theme__nestedListItem {list-style-type: none !important;padding: 0 0 0 24px !important;}'',
        ''.NBAIEditor_Theme__nestedListItem:before, .NBAIEditor_Theme__nestedListItem:after {display: none;}'',
        ''.editor-image-wrap {display: flex;flex-direction: column;position: relative;margin: 24px auto 12px;}'',
        ''.editor-image-wrap .editor-image {position: relative;z-index: 1;cursor: pointer;margin-top: 0;}'',
        ''.editor-image-wrap .editor-image img {width: 100%;border-radius: 8px;margin-top: 0;}'',
        ''.editor-image-wrap .image-introduction-wrap {font-size: 14px;line-height: 20px;color: rgba(0, 0, 0, 0.6);margin-top: 12px;user-select: none;}'',
        '':root[class~="dark"] .editor-image-wrap .image-introduction-wrap {color: inherit;}'',
        ''.editor-image-wrap .image-introduction-wrap .image-caption {margin-right: 3px;}'',
        ''.editor-image-wrap .image-introduction-wrap .photo-by {color: rgba(0, 0, 0, 0.3);}'',
        '':root[class~="dark"] .editor-image-wrap .image-introduction-wrap .photo-by {color: rgba(255, 255, 255, .6);}'',
        ''.editor-image-wrap .image-introduction-wrap .credit-text {margin-left: 6px;}'',
        ''.editor-image-wrap .image-introduction-wrap .credit-text a {color: rgba(0, 0, 0, 0.6);position: relative;text-decoration: underline;text-underline-offset: 5px;text-decoration-color: rgba(0, 0, 0, 0.3);}'',
        '':root[class~="dark"] .editor-image-wrap .image-introduction-wrap .credit-text a {color: rgb(47, 128, 237);text-decoration: none;}'',
        ''.editor-image-wrap .image-introduction-wrap .text-on {font-size: 14px;line-height: 20px;color: rgba(0, 0, 0, 0.3);margin-left: 6px;}'',
        '':root[class~="dark"] .editor-image-wrap .image-introduction-wrap .text-on {color: rgba(255, 255, 255, .6);}'',
        ''.editor-image-wrap .image-introduction-wrap .link-unsplash-official {position: relative;margin-left: 6px;color: rgba(0, 0, 0, 0.6);text-decoration: underline;text-underline-offset: 5px;text-decoration-color: rgba(0, 0, 0, 0.3);}'',
        '':root[class~="dark"] .editor-image-wrap .image-introduction-wrap .link-unsplash-official {color: rgb(47, 128, 237);text-decoration: none;}'',
        ''.node-embed-wrap {display: flex;justify-content: center;}'',
        ''.node-embed-wrap .node-embed {position: relative;width: 100%;box-sizing: content-box;}'',
        ''.node-embed-wrap .node-embed .mask {position: absolute;left: 0;right: 0;top: 0;bottom: 0;background-color: #fff;opacity: 0.5;z-index: 1;}'',
        ''.node-embed-wrap .node-embed .btn-edit-delete {position: absolute;top: 38px;right: 32px;cursor: pointer;z-index: 2;}'',
        ''.node-embed-wrap .node-embed:hover {border: 2px solid rgba(36, 81, 255, 0.3);}'',
        ''.node-embed-wrap .node-embed.selected {border: 2px solid rgba(36, 81, 255, 0.6);}'',
        ''#node-article-wrap {display: flex;justify-content: center;align-items: center;border-radius: 11px;border: 1px solid #f2f2f2;padding: 18px 32px;}'',
        ''#node-article-wrap .node-container {width: 100%;}'',
        ''#node-article-wrap .node-container .title {margin: 0;font-size: 20px;color: var(--main-color);font-weight: 600;line-height: 28px;overflow: hidden;text-overflow: ellipsis;display:-webkit-box;-webkit-line-clamp:2;-webkit-box-orient: vertical;}'',
        ''#node-article-wrap .node-container .info {margin: 0;display: flex;justify-content: flex-start;align-items: center;font-size: 14px;color: var(--secondary-color);line-height: 20px;}'',
        ''#node-article-wrap .node-container .info .avatar {margin: 0;width: 20px !important;height: 20px;border-radius: 50%;}'',
        ''#node-article-wrap .node-container .info .media-name {margin-left: 8px;}'',
        ''#node-article-wrap .node-container .info .date {margin-left: 2px;}'',
        ''#node-article-wrap .node-container .thumbnail {margin-top: 16px;width: 100%;border-radius: 8px;}'',
        ''#node-article-wrap.selected {border: 2px solid rgba(36, 81, 255, 0.6);}'',
        ''.embedcard-twitter {position: relative;display: flex;justify-content: center;align-items: center;flex-direction: column;width: 100%;height: 100%;margin: 0 !important;}'',
        ''.embedcard-twitter .loading {position: absolute;left: 50%;top: 50%;transform: translate(-50%, -50%);z-index: 9;}'',
        ''.embedcard-twitter .embed-holder {position: relative;width: 100%;margin: 0 !important;}'',
        ''.embedcard-twitter .embed-holder .twitter-tweet {margin: 0 !important;}'',
        ''.embedcard-youtube {position: relative;display: flex;justify-content: center;align-items: center;flex-direction: column;width: 100%;height: 100%;margin: 0 !important;}'',
        ''.embedcard-youtube .loading {position: absolute;left: 50%;top: 50%;transform: translate(-50%, -50%);z-index: 9;}'',
        ''.embedcard-youtube .embed-holder {position: relative;width: 100%;height: 0;padding-bottom: 56.25%;margin: 0 !important;}'',
        ''.embedcard-youtube .embed-holder .iframe {position: absolute;left: 0;top: 0;width: 100%;height: 100%;}'',
        ''.embedcard-instagram {position: relative;display: flex;justify-content: center;align-items: center;flex-direction: column;width: 100%;height: 100%;margin: 0 !important;}'',
        ''.embedcard-instagram .loading {position: absolute;left: 50%;top: 50%;transform: translate(-50%, -50%);z-index: 9;}'',
        ''.embedcard-instagram .embed-holder {position: relative;width: 100%;margin: 0 !important;}'',
        ''.embedcard-instagram .embed-holder iframe {margin: 0 !important;}'',
        ''.embedcard-facebook {position: relative;display: flex;justify-content: center;align-items: center;flex-direction: column;width: 100%;height: 100%;margin: 0 !important;}'',
        ''.embedcard-facebook .loading {position: absolute;left: 50%;top: 50%;transform: translate(-50%, -50%);z-index: 9;}'',
        ''.embedcard-facebook .embed-holder {position: relative;width: 100%;margin: 0 !important;}'',
        ''.embedcard-facebook .embed-holder iframe {margin: 0 !important;}'',
        ''</style>'']\<close>

text \<open>\<open>final_content\<close> of \<open>build_article_json\<close> (draft path).\<close>

definition draft_final_content ::
  "(markdown \<Rightarrow> html) \<Rightarrow> markdown \<Rightarrow> url \<Rightarrow> markdown \<Rightarrow> markdown \<Rightarrow> html" where
  "draft_final_content md article_credit image_link image_credit article_content =
     (let raw_image_credit = raw_credit md image_credit;
          image_block = create_image_block image_link raw_image_credit;
          html_content = wrap_paragraphs (md article_content);
          raw_article_credit = raw_credit md article_credit;
          combined_content = article_credit_html raw_article_credit @ html_content
      in image_block @ combined_content @ style_block)"

definition build_article_json ::
  "(markdown \<Rightarrow> html) \<Rightarrow> string \<Rightarrow> markdown \<Rightarrow> url \<Rightarrow> markdown \<Rightarrow> markdown \<Rightarrow>
   (string \<times> pyval) list" where
  "build_article_json md title article_credit image_link image_credit article_content =
     [(''title'', PStr title),
      (''content'',
         PStr (draft_final_content md article_credit image_link image_credit article_content)),
      (''covers'', PList (if image_link \<noteq> [] then [PStr image_link] else [])),
      (''isEvergreen'', PBool False),
      (''location'', PStr []),
      (''locationPid'', PStr []),
      (''mp_tags_manual'', PList []),
      (''editor_version'', PStr ''1.0'')]"

text \<open>\<open>final_content\<close> of \<open>make_publish\<close> (publish path).\<close>

definition publish_image_block :: "url \<Rightarrow> html \<Rightarrow> html" where
  "publish_image_block image_link raw_image_credit =
     (if image_link \<noteq> [] then create_image_block image_link raw_image_credit else [])"

definition publish_final_content ::
  "(markdown \<Rightarrow> html) \<Rightarrow> markdown \<Rightarrow> url \<Rightarrow> markdown \<Rightarrow> markdown \<Rightarrow> html" where
  "publish_final_content md article_credit image_link image_credit article_content =
     (let raw_image_credit = raw_credit md image_credit;
          html_content = wrap_paragraphs (md article_content);
          raw_article_credit = raw_credit md article_credit;
          image_block = publish_image_block image_link raw_image_credit
      in image_block @ html_content @ empty_paragraph @ style_block)"

section \<open>Draft creation (generate\_draft.py)\<close>

text \<open>
  One HTTP exchange: the library call raises, or it returns a status code and a body.
  A request is its URL and its JSON payload; headers and cookies are configuration and
  are left out.  The service is the parameter \<open>net\<close>.
\<close>

datatype http_result = RequestException | Response int string

type_synonym request = "url \<times> (string \<times> pyval) list"

text \<open>
  What \<open>create_draft\<close> reads from its environment: the clock, the random number
  generator and the identifiers it generates.
\<close>

text \<open>
  The time stamp is \<open>int(time.time())\<close>, an integer of at most 309 digits, and the
  random number has four digits: their decimal notations are below every limit of the
  interpreter.
\<close>

record draft_env =
  timestamp :: int
  random_int :: int
  unique_request_id :: string
  trace_id :: string
  draft_uuid :: string

definition unique_suffix :: "draft_env \<Rightarrow> string" where
  "unique_suffix env = show_int (timestamp env) @ ''-'' @ show_int (random_int env)"

definition unique_title :: "draft_env \<Rightarrow> string \<Rightarrow> string" where
  "unique_title env title = title @ '' ['' @ unique_suffix env @ '']''"

definition unique_content :: "draft_env \<Rightarrow> string \<Rightarrow> string" where
  "unique_content env article_content =
     article_content @ [CHR 0x0A, CHR 0x0A] @ ''[Draft ID: '' @ draft_uuid env @ '']''"

definition draft_article_dict ::
  "(markdown \<Rightarrow> html) \<Rightarrow> draft_env \<Rightarrow> string \<Rightarrow> markdown \<Rightarrow> url \<Rightarrow> markdown \<Rightarrow> markdown \<Rightarrow>
   (string \<times> pyval) list" where
  "draft_article_dict md env title article_credit image_link image_credit article_content =
     build_article_json md (unique_title env title) article_credit image_link image_credit
       (unique_content env article_content)"

text \<open>
  The converter may raise instead of returning: \<open>md_raises s\<close> tells that it does so on
  the text \<open>s\<close>, where \<open>md s\<close> is of no account.

  \<open>create_draft\<close>: its result (\<open>None\<close> when it raises, because the converter or the
  HTTP call does; else status code, body and request identifier) and the requests it
  has issued, one for each call of \<open>requests.post\<close>.
\<close>

definition create_draft ::
  "(markdown \<Rightarrow> html) \<Rightarrow> (markdown \<Rightarrow> bool) \<Rightarrow> url \<Rightarrow> draft_env \<Rightarrow>
   (request \<Rightarrow> http_result) \<Rightarrow> string \<Rightarrow> markdown \<Rightarrow> url \<Rightarrow> markdown \<Rightarrow> markdown \<Rightarrow>
   (int \<times> string \<times> string) option \<times> request list" where
  "create_draft md md_raises api_base_url env net title article_credit image_link image_credit
     article_content =
     (let url = api_base_url @ ''/post/draft''
      in if md_raises image_credit \<or> md_raises (unique_content env article_content) \<or>
            md_raises article_credit
         then (None, [])
         else
           (let article_dict =
                  draft_article_dict md env title article_credit image_link image_credit
                    article_content
            in case net (url, article_dict) of
                 RequestException \<Rightarrow> (None, [(url, article_dict)])
               | Response status_code text \<Rightarrow>
                   (Some (status_code, text, unique_request_id env), [(url, article_dict)])))"

section \<open>Publishing (make\_publish.py)\<close>

definition is_html_response :: "string \<Rightarrow> bool" where
  "is_html_response text \<longleftrightarrow> prefix ''<!'' (py_strip text) \<or> sublist ''<html'' (py_lower text)"

text \<open>
  The messages of \<open>validate_response\<close>, one constructor for each text:
  \<^item> \<open>NoMessage\<close>: the empty text of a valid response;
  \<^item> \<open>StatusFailed n\<close>: ``Request failed with status code: n'';
  \<^item> \<open>HtmlSessionExpired\<close>: ``Received HTML response instead of JSON. Session may have
    expired.'';
  \<^item> \<open>ApiError code message\<close>: ``API returned error code: code - message'', with the
    \<open>code\<close> member of the envelope (if any) and its \<open>message\<close> member (if any, else
    ``No message'');
  \<^item> \<open>ParseFailed\<close>: ``Failed to parse response as JSON''.
\<close>

datatype validation_message =
    NoMessage
  | StatusFailed int
  | HtmlSessionExpired
  | ApiError "json option" "json option"
  | ParseFailed

text \<open>
  \<open>validate_response\<close> returns validity and message, or raises what \<open>json.loads\<close>
  raises beside \<open>JSONDecodeError\<close>, the only exception it handles.
\<close>

definition validate_response ::
  "limits \<Rightarrow> int \<Rightarrow> string \<Rightarrow> py_error + bool \<times> validation_message" where
  "validate_response lim status_code response_text =
     (if status_code \<noteq> 200 then Inr (False, StatusFailed status_code)
      else
        (let text = py_strip response_text
         in if is_html_response text then Inr (False, HtmlSessionExpired)
            else
              (case json_loads lim text of
                 JSONDecodeError \<Rightarrow> Inr (False, ParseFailed)
               | Raised e \<Rightarrow> Inl e
               | Parsed data \<Rightarrow>
                   (case data of
                      JObject kvs \<Rightarrow>
                        if \<not> eq_zero (dict_get kvs ''code'')
                        then Inr (False, ApiError (dict_get kvs ''code'') (dict_get kvs ''message''))
                        else Inr (True, NoMessage)
                    | _ \<Rightarrow> Inr (True, NoMessage)))))"

text \<open>
  The exceptions \<open>make_publish\<close> raises.  A failed validation of the response raises
  \<open>PublishError\<close> inside the \<open>try\<close> block, whose last handler raises it again as
  ``Unexpected error: ...''; the same handler catches what \<open>validate_response\<close> raises,
  and the \<open>PublishError\<close> ``Error processing markdown content: ...'' raised when the
  converter raises.
\<close>

datatype publish_message =
    NetworkErrorOccurred
  | UnexpectedError validation_message
  | UnexpectedRaised py_error
  | UnexpectedMarkdownError

datatype exn = ValueError string | PublishError publish_message

definition allowed_locations :: "string list" where
  "allowed_locations = [''Entire U.S'', ''Cambridge, MA'', ''Boston, MA'', ''Massachusetts State'']"

definition validate_location :: "string \<Rightarrow> exn + unit" where
  "validate_location location =
     (if location \<notin> set allowed_locations
      then Inl (ValueError (''Invalid location. Must be one of: '' @ join '', '' allowed_locations))
      else Inr ())"

definition publish_payload ::
  "(markdown \<Rightarrow> html) \<Rightarrow> string \<Rightarrow> markdown \<Rightarrow> url \<Rightarrow> markdown \<Rightarrow> markdown \<Rightarrow> string \<Rightarrow>
   bool \<Rightarrow> bool \<Rightarrow> (string \<times> pyval) list" where
  "publish_payload md title article_credit image_link image_credit article_content location
     is_title_rewrited is_ai_assisted =
     [(''content'',
         PStr (publish_final_content md article_credit image_link image_credit article_content)),
      (''mp_tags_manual'', PList []),
      (''location'', PStr location),
      (''locationPid'', PStr location),
      (''title'', PStr title),
      (''is_title_rewrited'', PBool is_title_rewrited),
      (''is_ai_assisted'', PBool is_ai_assisted),
      (''editor_version'', PStr ''1.0''),
      (''covers'', PList (if image_link \<noteq> [] then [PStr image_link] else []))]"

text \<open>
  \<open>make_publish\<close>: its result (an exception, or status code, body and request
  identifier) and the requests it has issued, one for each call of \<open>session.put\<close>.
\<close>

definition make_publish ::
  "limits \<Rightarrow> (markdown \<Rightarrow> html) \<Rightarrow> (markdown \<Rightarrow> bool) \<Rightarrow> url \<Rightarrow> string \<Rightarrow>
   (request \<Rightarrow> http_result) \<Rightarrow>
   string \<Rightarrow> string \<Rightarrow> url \<Rightarrow> markdown \<Rightarrow> url \<Rightarrow> markdown \<Rightarrow> markdown \<Rightarrow> string \<Rightarrow>
   string \<Rightarrow> bool \<Rightarrow> bool \<Rightarrow>
   (exn + int \<times> string \<times> string) \<times> request list" where
  "make_publish lim md md_raises api_base_url request_id net title author_name author_url
     article_credit image_link image_credit article_content data_id location is_title_rewrited
     is_ai_assisted =
     (if \<not> (title \<noteq> [] \<and> author_name \<noteq> [] \<and> article_content \<noteq> [] \<and> data_id \<noteq> []) then
        (Inl (ValueError
           ''Required fields missing: title, author_name, article_content, or data_id''), [])
      else
        (case validate_location location of
           Inl e \<Rightarrow> (Inl e, [])
         | Inr _ \<Rightarrow>
             if md_raises image_credit \<or> md_raises article_content \<or> md_raises article_credit
             then (Inl (PublishError UnexpectedMarkdownError), [])
             else
               (let url = api_base_url @ ''/post/publish/'' @ data_id;
                    payload =
                      publish_payload md title article_credit image_link image_credit
                        article_content location is_title_rewrited is_ai_assisted
                in case net (url, payload) of
                     RequestException \<Rightarrow>
                       (Inl (PublishError NetworkErrorOccurred), [(url, payload)])
                   | Response status_code text \<Rightarrow>
                       (case validate_response lim status_code text of
                          Inl e \<Rightarrow> (Inl (PublishError (UnexpectedRaised e)), [(url, payload)])
                        | Inr (False, error_message) \<Rightarrow>
                            (Inl (PublishError (UnexpectedError error_message)),
                             [(url, payload)])
                        | Inr (True, _) \<Rightarrow>
                            (Inr (status_code, text, request_id), [(url, payload)])))))"
section \<open>NLP calculation (calculate.py)\<close>

definition parse_failure_dict :: json where
  "parse_failure_dict =
     JObject [(ustr ''code'', JInt (- 1)),
              (ustr ''status'', JString (ustr ''error'')),
              (ustr ''message'', JString (ustr ''Failed to parse JSON response''))]"

text \<open>
  \<open>calculate_nlp\<close>, given the outcome of its HTTP call (\<open>None\<close>: the call raises).
  It returns, or it raises: the exception of the HTTP call, or what \<open>json.loads\<close>
  raises beside \<open>JSONDecodeError\<close>, the only exception it handles.
\<close>

datatype raised = RequestFailed | Uncaught py_error

definition calculate_nlp ::
  "limits \<Rightarrow> string \<Rightarrow> int \<Rightarrow> (int \<times> string) option \<Rightarrow> raised + int \<times> json \<times> string" where
  "calculate_nlp lim request_id post_id http =
     (case http of
        None \<Rightarrow> Inl RequestFailed
      | Some (status_code, text) \<Rightarrow>
          (case json_loads lim text of
             Parsed response_dict \<Rightarrow> Inr (status_code, response_dict, request_id)
           | JSONDecodeError \<Rightarrow> Inr (status_code, parse_failure_dict, request_id)
           | Raised e \<Rightarrow> Inl (Uncaught e)))"

section \<open>The workflow (newsbreak\_api.py)\<close>

text \<open>
  \<open>process_json_response\<close> returns \<open>None\<close> or the parsed value, or raises what
  \<open>json.loads\<close> raises beside \<open>JSONDecodeError\<close>.
\<close>

definition process_json_response :: "limits \<Rightarrow> string \<Rightarrow> py_error + json option" where
  "process_json_response lim response_text =
     (case json_loads lim response_text of
        JSONDecodeError \<Rightarrow> Inr None
      | Raised e \<Rightarrow> Inl e
      | Parsed data \<Rightarrow>
          (case data of
             JObject kvs \<Rightarrow> if \<not> eq_zero (dict_get kvs ''code'') then Inr None else Inr (Some data)
           | _ \<Rightarrow> Inr (Some data)))"

text \<open>
  The checks of the content-update response in \<open>main\<close>, by the message logged:
  \<^item> \<open>PutStatusFailed\<close>: ``PUT request failed with status n'';
  \<^item> \<open>PutSessionExpired\<close>: ``Session expired - received HTML login page'';
  \<^item> \<open>PutApiError message\<close>: ``API Error: message'' (``Unknown error'' without one);
  \<^item> \<open>PutParseFailed\<close>: ``Failed to parse response as JSON'';
  \<^item> \<open>PutRaised\<close>: ``Unexpected error during PUT request: ...'', for what \<open>json.loads\<close>
    raises beside \<open>JSONDecodeError\<close>;
  \<^item> \<open>PutAccepted\<close>: no message, the run goes on.
\<close>

datatype put_verdict =
    PutAccepted
  | PutStatusFailed int
  | PutSessionExpired
  | PutApiError "json option"
  | PutParseFailed
  | PutRaised py_error

definition check_put_response :: "limits \<Rightarrow> int \<Rightarrow> string \<Rightarrow> put_verdict" where
  "check_put_response lim put_status put_response =
     (if put_status \<noteq> 200 then PutStatusFailed put_status
      else if sublist ''<html'' (py_lower put_response) \<or>
              prefix ''<!DOCTYPE'' (py_strip put_response) then PutSessionExpired
      else
        (case json_loads lim put_response of
           JSONDecodeError \<Rightarrow> PutParseFailed
         | Raised e \<Rightarrow> PutRaised e
         | Parsed put_data \<Rightarrow>
             (case put_data of
                JObject kvs \<Rightarrow>
                  if \<not> eq_zero (dict_get kvs ''code'') then PutApiError (dict_get kvs ''message'')
                  else PutAccepted
              | _ \<Rightarrow> PutAccepted)))"

text \<open>
  One run of \<open>main\<close> is determined by what its collaborators answer:
  \<^item> \<open>interp\<close>: the limits of the interpreter where \<open>json.loads\<close> is called in each
    step (the calls are made at different depths of the call stack);
  \<^item> \<open>content_file\<close>: the text of the content file, \<open>None\<close> when it is missing or
    unreadable; \<open>content_reread\<close>: the same for the second reading in step 3;
  \<^item> \<open>draft_result\<close>, \<open>upload_result\<close>, \<open>put_result\<close>: status code and body returned by
    \<open>create_draft\<close>, \<open>upload_image\<close> and \<open>make_put_request\<close>, \<open>None\<close> when the call raises;
  \<^item> \<open>py_int\<close>: the conversion \<open>int(data_id)\<close>, \<open>None\<close> when it raises;
  \<^item> \<open>nlp_http\<close>: the HTTP exchange inside \<open>calculate_nlp\<close>, and \<open>nlp_request_id\<close>;
  \<^item> \<open>publish_result\<close>: what \<open>make_publish\<close> does;
  \<^item> \<open>dumps_raises\<close>: whether \<open>json.dumps\<close> with \<open>indent=2\<close> raises (the encoder
    written in Python is recursive) when the parsed publish response is printed.
  The result is the exit code of the process (0 when \<open>main\<close> returns) and the steps
  invoked, in order.
\<close>

datatype step = CreateDraft | UploadImage | UpdateContent | CalculateNlp | Publish

datatype publish_outcome = Returned int string | RaisedPublishError | RaisedOther

record world =
  interp :: "step \<Rightarrow> limits"
  content_file :: "string option"
  draft_result :: "(int \<times> string) option"
  upload_result :: "(int \<times> string) option"
  content_reread :: "string option"
  put_result :: "(int \<times> string) option"
  py_int :: "json \<Rightarrow> int option"
  nlp_http :: "(int \<times> string) option"
  nlp_request_id :: string
  publish_result :: publish_outcome
  dumps_raises :: "json \<Rightarrow> bool"

definition after :: "step \<Rightarrow> nat \<times> step list \<Rightarrow> nat \<times> step list" where
  "after s r = (fst r, s # snd r)"

definition nlp_succeeded :: "json \<Rightarrow> bool" where
  "nlp_succeeded nlp_response =
     (case nlp_response of
        JObject kvs \<Rightarrow>
          eq_zero (dict_get kvs ''code'') \<and>
          dict_get kvs ''status'' = Some (JString (ustr ''success''))
      | _ \<Rightarrow> False)"

text \<open>
  Step 5: \<open>make_publish\<close> is invoked.  When it returns, the response is parsed once
  more and printed; what \<open>json.loads\<close> raises beside \<open>JSONDecodeError\<close>, and what
  \<open>json.dumps\<close> raises, reaches the outer handler, which exits with code 1.
\<close>

definition publish_step :: "world \<Rightarrow> nat \<times> step list" where
  "publish_step w =
     after Publish
       (case publish_result w of
          Returned publish_status publish_response \<Rightarrow>
            (case json_loads (interp w Publish) publish_response of
               Parsed response_data \<Rightarrow> if dumps_raises w response_data then (1, []) else (0, [])
             | JSONDecodeError \<Rightarrow> (0, [])
             | Raised e \<Rightarrow> (1, []))
        | RaisedPublishError \<Rightarrow> (1, [])
        | RaisedOther \<Rightarrow> (1, []))"

text \<open>
  Step 4: \<open>int(data_id)\<close> is evaluated before the call; a response that is no dictionary
  makes \<open>.get\<close> raise, which the outer handler turns into exit code 1.
\<close>

definition nlp_step :: "world \<Rightarrow> json \<Rightarrow> nat \<times> step list" where
  "nlp_step w data_id =
     (case py_int w data_id of
        None \<Rightarrow> (1, [])
      | Some post_id \<Rightarrow>
          after CalculateNlp
            (case calculate_nlp (interp w CalculateNlp) (nlp_request_id w) post_id (nlp_http w) of
               Inl e \<Rightarrow> (1, [])
             | Inr (nlp_status, nlp_response, request_id) \<Rightarrow>
                 if nlp_succeeded nlp_response then publish_step w else (1, [])))"

text \<open>Step 3: the content file is read again, and must not be blank.\<close>

definition update_step :: "world \<Rightarrow> json \<Rightarrow> nat \<times> step list" where
  "update_step w data_id =
     (case content_reread w of
        None \<Rightarrow> (1, [])
      | Some content \<Rightarrow>
          if py_strip content = [] then (1, [])
          else
            after UpdateContent
              (case put_result w of
                 None \<Rightarrow> (1, [])
               | Some (put_status, put_response) \<Rightarrow>
                   (case check_put_response (interp w UpdateContent) put_status put_response of
                      PutAccepted \<Rightarrow> nlp_step w data_id
                    | _ \<Rightarrow> (1, []))))"

definition upload_step :: "world \<Rightarrow> json \<Rightarrow> nat \<times> step list" where
  "upload_step w data_id =
     after UploadImage
       (case upload_result w of
          None \<Rightarrow> (1, [])
        | Some (image_status, image_response) \<Rightarrow>
            (case process_json_response (interp w UploadImage) image_response of
               Inl e \<Rightarrow> (1, [])
             | Inr None \<Rightarrow> (1, [])
             | Inr (Some image_data) \<Rightarrow>
                 if \<not> truthy image_data then (1, [])
                 else
                   (case image_data of
                      JObject kvs \<Rightarrow>
                        (case dict_get kvs ''data'' of
                           None \<Rightarrow> (1, [])
                         | Some image_url \<Rightarrow>
                             if \<not> truthy image_url then (1, []) else update_step w data_id)
                    | _ \<Rightarrow> (1, []))))"

text \<open>
  Step 1 and the whole run.  A parsed value that is no dictionary makes \<open>.get\<close> raise;
  the outer handler exits with code 1, as it does for what \<open>process_json_response\<close>
  raises.
\<close>

definition main :: "world \<Rightarrow> nat \<times> step list" where
  "main w =
     (case content_file w of
        None \<Rightarrow> (1, [])
      | Some article_content \<Rightarrow>
          after CreateDraft
            (case draft_result w of
               None \<Rightarrow> (1, [])
             | Some (status_code, response_text) \<Rightarrow>
                 (case process_json_response (interp w CreateDraft) response_text of
                    Inl e \<Rightarrow> (1, [])
                  | Inr None \<Rightarrow> (1, [])
                  | Inr (Some draft_data) \<Rightarrow>
                      if \<not> truthy draft_data then (1, [])
                      else
                        (case draft_data of
                           JObject kvs \<Rightarrow>
                             (case dict_get kvs ''data'' of
                                None \<Rightarrow> (1, [])
                              | Some data_id \<Rightarrow>
                                  if \<not> truthy data_id then (1, []) else upload_step w data_id)
                         | _ \<Rightarrow> (1, [])))))"

section \<open>Shapes of HTML texts\<close>

text \<open>
  A text made of paragraphs: each segment is the text before a paragraph and the
  paragraph's inner markup; \<open>tail\<close> is the text behind the last paragraph.
  \<open>decorated_of_segments\<close> is the same text with every paragraph decorated.
\<close>

fun html_of_segments :: "(string \<times> string) list \<Rightarrow> string \<Rightarrow> string" where
  "html_of_segments [] tail = tail"
| "html_of_segments ((pre, inner) # segs) tail =
     pre @ ''<p>'' @ inner @ ''</p>'' @ html_of_segments segs tail"

fun decorated_of_segments :: "(string \<times> string) list \<Rightarrow> string \<Rightarrow> string" where
  "decorated_of_segments [] tail = tail"
| "decorated_of_segments ((pre, inner) # segs) tail =
     pre @ repl inner @ decorated_of_segments segs tail"

text \<open>The number of places of a text where \<open>needle\<close> starts.\<close>

fun count_occurrences :: "string \<Rightarrow> string \<Rightarrow> nat" where
  "count_occurrences needle [] = 0"
| "count_occurrences needle (c # cs) =
     (if prefix needle (c # cs) then 1 else 0) + count_occurrences needle cs"

definition decorated_blocks :: "string \<Rightarrow> nat" where
  "decorated_blocks html = count_occurrences decorated_open html"

text \<open>
  The top-level paragraphs of an HTML text: the opening tags \<^verbatim>\<open><p>\<close> met at nesting
  depth 0, where an opening tag enters an element, a closing tag leaves one and the
  void elements \<open>br\<close>, \<open>hr\<close> and \<open>img\<close> do neither.
\<close>

definition void_tag :: "string \<Rightarrow> bool" where
  "void_tag cs \<longleftrightarrow> prefix ''br'' cs \<or> prefix ''hr'' cs \<or> prefix ''img'' cs"

fun top_level_from :: "nat \<Rightarrow> string \<Rightarrow> nat" where
  "top_level_from d [] = 0"
| "top_level_from d (c # cs) =
     (if c = CHR ''<'' then
        (if prefix ''/'' cs then top_level_from (d - 1) cs
         else if void_tag cs then top_level_from d cs
         else (if d = 0 \<and> prefix ''p>'' cs then 1 else 0) + top_level_from (Suc d) cs)
      else top_level_from d cs)"

definition top_level_paragraphs :: "string \<Rightarrow> nat" where
  "top_level_paragraphs html = top_level_from 0 html"


section \<open>Reading the image metadata back\<close>

text \<open>
  \<open>urllib.parse.unquote\<close> on an ASCII text whose escapes name ASCII bytes: a percent
  sign followed by two hexadecimal digits is the byte they name, any other character
  stands for itself.  \<open>None\<close> outside of that fragment (a character or an escaped byte
  from 128 on, where the UTF-8 decoding of \<open>unquote\<close> comes into play).
\<close>

fun unquote :: "string \<Rightarrow> string option" where
  "unquote [] = Some []"
| "unquote (c # cs) =
     (if 128 \<le> code_point c then None
      else if c = CHR ''%'' then
        (case cs of
           a # b # rest \<Rightarrow>
             (case (hex_val a, hex_val b) of
                (Some x, Some y) \<Rightarrow>
                  if x * 16 + y < 128
                  then map_option ((#) (char_of (x * 16 + y))) (unquote rest) else None
              | _ \<Rightarrow> map_option ((#) c) (unquote cs))
         | _ \<Rightarrow> map_option ((#) c) (unquote cs))
      else map_option ((#) c) (unquote cs))"

text \<open>The text behind the first occurrence of a marker.\<close>

fun after_marker :: "string \<Rightarrow> string \<Rightarrow> string option" where
  "after_marker m [] = (if m = [] then Some [] else None)"
| "after_marker m (c # cs) =
     (if prefix m (c # cs) then Some (drop (length m) (c # cs)) else after_marker m cs)"

text \<open>
  The value of the first \<^verbatim>\<open>data-editornodeinfo\<close> attribute of a block: the text between
  the opening quote of the attribute and the next quote.
\<close>

definition editornodeinfo :: "html \<Rightarrow> string option" where
  \<open>editornodeinfo block =
     map_option (takeWhile (\<lambda>c. c \<noteq> CHR 0x22)) (after_marker ''data-editornodeinfo="'' block)\<close>

text \<open>
  The attribute value, percent-decoded and parsed as JSON; \<open>None\<close> when the block has
  no such attribute or its value is outside the fragment of \<open>unquote\<close>.
\<close>

definition image_metadata :: "limits \<Rightarrow> html \<Rightarrow> loads_result option" where
  "image_metadata lim block =
     (case editornodeinfo block of
        None \<Rightarrow> None
      | Some attr \<Rightarrow>
          (case unquote attr of
             None \<Rightarrow> None
           | Some text \<Rightarrow> Some (json_loads lim text)))"

text \<open>The value \<open>json.loads\<close> returns for the serialisation of a Python value.\<close>

fun json_of :: "pyval \<Rightarrow> json" where
  "json_of (PStr s) = JString (ustr s)"
| "json_of (PInt i) = JInt i"
| "json_of (PBool b) = JBool b"
| "json_of (PList xs) = JArray (map json_of xs)"

definition json_of_dict :: "(string \<times> pyval) list \<Rightarrow> json" where
  "json_of_dict d = JObject (map (\<lambda>(k, v). (ustr k, json_of v)) d)"

text \<open>A dictionary whose values are texts and integers.\<close>

fun flat_value :: "pyval \<Rightarrow> bool" where
  "flat_value (PStr s) = True"
| "flat_value (PInt i) = True"
| "flat_value v = False"

text \<open>
  Limits an interpreter can have: one array or object at least can be entered, and the
  limit for integer digits, if any, is 640 at least.
\<close>

definition admissible :: "limits \<Rightarrow> bool" where
  "admissible lim \<longleftrightarrow>
     0 < max_nesting lim \<and> (case max_int_digits lim of None \<Rightarrow> True | Some m \<Rightarrow> 640 \<le> m)"


text \<open>Texts of ASCII characters; and one member of a serialised dictionary.\<close>

definition ascii :: "string \<Rightarrow> bool" where
  "ascii s \<longleftrightarrow> (\<forall>c \<in> set s. code_point c < 128)"

definition member_text :: "string \<times> pyval \<Rightarrow> string" where
  "member_text kv = dumps_str (fst kv) @ '': '' @ dumps_value (snd kv)"
section \<open>Example runs\<close>

text \<open>
  Limits as a default installation has them (the recursion budget is somewhat less than
  the recursion limit of 1000).  A run in which the first three steps succeed and the NLP calculation answers
  ``busy''; the same run with an HTML page, and with a refusal, as the answer to the
  draft creation.
\<close>

definition default_limits :: limits where
  "default_limits = \<lparr>max_nesting = 1000, max_int_digits = Some 4300\<rparr>"

definition busy_world :: world where
  \<open>busy_world =
     \<lparr>interp = (\<lambda>s. default_limits),
      content_file = Some ''**bold** text'',
      draft_result = Some (200, ''{"code": 0, "data": 42}''),
      upload_result = Some (200, ''{"code": 0, "data": "u"}''),
      content_reread = Some ''**bold** text'',
      put_result = Some (200, ''{"code": 0}''),
      py_int = (\<lambda>j. case j of JInt n \<Rightarrow> Some n | _ \<Rightarrow> None),
      nlp_http = Some (200, ''{"code": 7, "message": "busy"}''),
      nlp_request_id = ''r4'',
      publish_result = Returned 200 ''{"code": 0}'',
      dumps_raises = (\<lambda>j. False)\<rparr>\<close>



text \<open>
  A converter for the examples: it wraps its input in one paragraph and renders the
  body \<^verbatim>\<open>**bold** text\<close>; and the converter's output on a credit of two paragraphs.
\<close>

definition example_md :: "markdown \<Rightarrow> html" where
  "example_md s = ''<p>'' @ (if s = ''**bold** text'' then ''<strong>bold</strong> text'' else s)
     @ ''</p>''"

definition two_paragraph_md :: "markdown \<Rightarrow> html" where
  "two_paragraph_md s = ''<p>a</p>'' @ [CHR 0x0A] @ ''<p>b</p>''"


text \<open>
  A converter that renders the blocks of a text, separated by blank lines, as
  paragraphs, one on each line.
\<close>

fun split_blocks :: "string \<Rightarrow> string \<Rightarrow> string list" where
  "split_blocks cur (a # b # cs) =
     (if a = CHR 0x0A \<and> b = CHR 0x0A then rev cur # split_blocks [] cs
      else split_blocks (a # cur) (b # cs))"
| "split_blocks cur [a] = [rev (a # cur)]"
| "split_blocks cur [] = [rev cur]"

definition paragraph_md :: "markdown \<Rightarrow> html" where
  "paragraph_md s = join [CHR 0x0A] (map (\<lambda>b. ''<p>'' @ b @ ''</p>'') (split_blocks [] s))"

text \<open>Two calls of \<open>create_draft\<close> within the same second.\<close>

definition first_call :: draft_env where
  "first_call = \<lparr>timestamp = 1700000000, random_int = 1234, unique_request_id = ''r1'',
     trace_id = ''t1'', draft_uuid = ''u1''\<rparr>"

definition second_call :: draft_env where
  "second_call = \<lparr>timestamp = 1700000000, random_int = 5678, unique_request_id = ''r2'',
     trace_id = ''t2'', draft_uuid = ''u2''\<rparr>"
section \<open>Properties of the decimal notation\<close>

lemma digit_val_digit_char: "d < 10 \<Longrightarrow> digit_val (digit_char d) = d"
  by (simp add: digit_val_def digit_char_def code_point_def)

lemma is_digit_digit_char: "d < 10 \<Longrightarrow> is_digit (digit_char d)"
  by (simp add: is_digit_def digit_char_def code_point_def)

lemma nat_of_digits_snoc: "nat_of_digits (ds @ [d]) = nat_of_digits ds * 10 + digit_val d"
  by (simp add: nat_of_digits_def)

lemma nat_of_digits_show_nat: "nat_of_digits (show_nat n) = n"
proof (induction n rule: show_nat.induct)
  case (1 n)
  show ?case
  proof (cases "n < 10")
    case True
    then show ?thesis
      by (simp add: show_nat.simps [of n] nat_of_digits_def digit_val_digit_char)
  next
    case False
    with 1 have "nat_of_digits (show_nat (n div 10)) = n div 10" by simp
    with False show ?thesis
      by (simp add: show_nat.simps [of n] nat_of_digits_snoc digit_val_digit_char)
  qed
qed

lemma show_nat_digits: "c \<in> set (show_nat n) \<Longrightarrow> is_digit c"
proof (induction n rule: show_nat.induct)
  case (1 n)
  show ?case
  proof (cases "n < 10")
    case True
    with 1 show ?thesis by (simp add: show_nat.simps [of n] is_digit_digit_char)
  next
    case False
    with 1 show ?thesis by (auto simp: show_nat.simps [of n] is_digit_digit_char)
  qed
qed

lemma show_nat_not_Nil: "show_nat n \<noteq> []"
  by (simp add: show_nat.simps [of n])

lemma show_nat_inj: "show_nat a = show_nat b \<Longrightarrow> a = b"
  by (metis nat_of_digits_show_nat)

lemma show_nat_no_minus: "show_nat n \<noteq> CHR ''-'' # s"
proof
  assume "show_nat n = CHR ''-'' # s"
  then have "CHR ''-'' \<in> set (show_nat n)" by simp
  then have "is_digit CHR ''-''" by (rule show_nat_digits)
  then show False by (simp add: is_digit_def code_point_def)
qed

lemma show_int_inj: "show_int a = show_int b \<Longrightarrow> a = b"
proof -
  assume eq: "show_int a = show_int b"
  show "a = b"
  proof (cases "a < 0")
    case an: True
    show ?thesis
    proof (cases "b < 0")
      case True
      with an eq have "show_nat (nat (- a)) = show_nat (nat (- b))" by (simp add: show_int_def)
      then have "nat (- a) = nat (- b)" by (rule show_nat_inj)
      with an True show ?thesis by simp
    next
      case False
      with an eq have "show_nat (nat b) = CHR ''-'' # show_nat (nat (- a))"
        by (simp add: show_int_def)
      then show ?thesis by (simp add: show_nat_no_minus)
    qed
  next
    case ap: False
    show ?thesis
    proof (cases "b < 0")
      case True
      with ap eq have "show_nat (nat a) = CHR ''-'' # show_nat (nat (- b))"
        by (simp add: show_int_def)
      then show ?thesis by (simp add: show_nat_no_minus)
    next
      case False
      with ap eq have "show_nat (nat a) = show_nat (nat b)" by (simp add: show_int_def)
      then have "nat a = nat b" by (rule show_nat_inj)
      with ap False show ?thesis by simp
    qed
  qed
qed

lemma length_show_nat_1: "n < 10 \<Longrightarrow> length (show_nat n) = 1"
  by (simp add: show_nat.simps [of n])

lemma length_show_nat_2: "10 \<le> n \<Longrightarrow> n < 100 \<Longrightarrow> length (show_nat n) = 2"
  by (simp add: show_nat.simps [of n] length_show_nat_1)

lemma length_show_nat_3: "100 \<le> n \<Longrightarrow> n < 1000 \<Longrightarrow> length (show_nat n) = 3"
  by (simp add: show_nat.simps [of n] length_show_nat_2)

lemma length_show_nat_4: "1000 \<le> n \<Longrightarrow> n < 10000 \<Longrightarrow> length (show_nat n) = 4"
  by (simp add: show_nat.simps [of n] length_show_nat_3)

lemma length_show_int_4: "1000 \<le> r \<Longrightarrow> r \<le> 9999 \<Longrightarrow> length (show_int r) = 4"
  by (simp add: show_int_def length_show_nat_4)

lemma unique_suffix_eq_iff:
  assumes "1000 \<le> random_int e1" "random_int e1 \<le> 9999"
    and "1000 \<le> random_int e2" "random_int e2 \<le> 9999"
  shows "unique_suffix e1 = unique_suffix e2 \<longleftrightarrow>
         timestamp e1 = timestamp e2 \<and> random_int e1 = random_int e2"
proof
  assume eq: "unique_suffix e1 = unique_suffix e2"
  have len: "length (show_int (random_int e1)) = length (show_int (random_int e2))"
    using assms by (simp add: length_show_int_4)
  from eq have cat: "(show_int (timestamp e1) @ ''-'') @ show_int (random_int e1) =
                (show_int (timestamp e2) @ ''-'') @ show_int (random_int e2)"
    by (simp add: unique_suffix_def)
  from len have "((show_int (timestamp e1) @ ''-'') @ show_int (random_int e1) =
                  (show_int (timestamp e2) @ ''-'') @ show_int (random_int e2)) =
      (show_int (timestamp e1) @ ''-'' = show_int (timestamp e2) @ ''-'' \<and>
       show_int (random_int e1) = show_int (random_int e2))"
    by (intro append_eq_append_conv disjI2)
  from iffD1 [OF this cat]
  have "show_int (timestamp e1) @ ''-'' = show_int (timestamp e2) @ ''-'' \<and>
      show_int (random_int e1) = show_int (random_int e2)" .
  then show "timestamp e1 = timestamp e2 \<and> random_int e1 = random_int e2"
    by (auto dest: show_int_inj)
next
  assume "timestamp e1 = timestamp e2 \<and> random_int e1 = random_int e2"
  then show "unique_suffix e1 = unique_suffix e2" by (simp add: unique_suffix_def)
qed

section \<open>Properties of paragraph decoration\<close>

lemma not_sublist_Cons: "\<not> sublist n (c # cs) \<Longrightarrow> \<not> sublist n cs"
  by (simp add: sublist_Cons_right)

lemma wrap_paragraphs_other:
  assumes "\<not> prefix ''<p>'' (c # cs)"
  shows "wrap_paragraphs (c # cs) = c # wrap_paragraphs cs"
  by (simp only: wrap_paragraphs.simps(2) assms if_False)

lemma wrap_paragraphs_no_open:
  "\<not> sublist ''<p>'' s \<Longrightarrow> wrap_paragraphs s = s"
proof (induction s)
  case Nil
  then show ?case by simp
next
  case (Cons c cs)
  from Cons.prems have np: "\<not> prefix ''<p>'' (c # cs)" and "\<not> sublist ''<p>'' cs"
    by (simp_all add: sublist_Cons_right)
  with Cons.IH have "wrap_paragraphs cs = cs" by simp
  with wrap_paragraphs_other [OF np] show ?case by simp
qed

lemma prefix_open_append:
  assumes "\<not> sublist ''<p>'' (c # pre)"
  shows "\<not> prefix ''<p>'' (c # pre @ ''<p>'' @ rest)"
proof -
  from assms have np: "\<not> prefix ''<p>'' (c # pre)"
    by (simp add: sublist_Cons_right)
  show ?thesis
  proof (cases pre)
    case Nil
    then show ?thesis by simp
  next
    case (Cons d pre')
    show ?thesis
    proof (cases pre')
      case Nil
      with Cons show ?thesis by simp
    next
      case (Cons e pre'')
      with np \<open>pre = d # pre'\<close> show ?thesis by simp
    qed
  qed
qed

lemma wrap_paragraphs_skip_pre:
  "\<not> sublist ''<p>'' pre \<Longrightarrow>
   wrap_paragraphs (pre @ ''<p>'' @ rest) = pre @ wrap_paragraphs (''<p>'' @ rest)"
proof (induction pre)
  case Nil
  then show ?case by simp
next
  case (Cons c pre)
  have np: "\<not> prefix ''<p>'' (c # (pre @ ''<p>'' @ rest))"
    using prefix_open_append [OF Cons.prems, of rest] by simp
  have "\<not> sublist ''<p>'' pre"
    by (rule not_sublist_Cons [OF Cons.prems])
  then have "wrap_paragraphs (pre @ ''<p>'' @ rest) = pre @ wrap_paragraphs (''<p>'' @ rest)"
    by (rule Cons.IH)
  with wrap_paragraphs_other [OF np] show ?case by simp
qed

lemma prefix_close_append:
  assumes "\<not> sublist ''</p>'' (c # inner)"
  shows "\<not> prefix ''</p>'' (c # inner @ ''</p>'' @ rest)"
proof -
  from assms have np: "\<not> prefix ''</p>'' (c # inner)"
    by (simp add: sublist_Cons_right)
  show ?thesis
  proof (cases inner)
    case Nil
    then show ?thesis by simp
  next
    case c1: (Cons d i1)
    show ?thesis
    proof (cases i1)
      case Nil
      with c1 show ?thesis by simp
    next
      case c2: (Cons e i2)
      show ?thesis
      proof (cases i2)
        case Nil
        with c1 c2 show ?thesis by simp
      next
        case (Cons f i3)
        with np c1 c2 show ?thesis by simp
      qed
    qed
  qed
qed

lemma until_close_inner:
  "\<not> sublist ''</p>'' inner \<Longrightarrow>
   until_close (inner @ ''</p>'' @ rest) = Some (inner, rest)"
proof (induction inner)
  case Nil
  then show ?case by simp
next
  case (Cons c inner)
  have "\<not> prefix ''</p>'' (c # inner @ ''</p>'' @ rest)"
    by (rule prefix_close_append [OF Cons.prems])
  moreover have "\<not> sublist ''</p>'' inner"
    by (rule not_sublist_Cons [OF Cons.prems])
  ultimately show ?case using Cons.IH by simp
qed

lemma wrap_paragraphs_one:
  assumes "\<not> sublist ''</p>'' inner"
  shows "wrap_paragraphs (''<p>'' @ inner @ ''</p>'' @ rest) = repl inner @ wrap_paragraphs rest"
  using until_close_inner [OF assms, of rest] by simp

lemma wrap_paragraphs_segments:
  assumes "\<forall>(pre, inner) \<in> set segs. \<not> sublist ''<p>'' pre \<and> \<not> sublist ''</p>'' inner"
    and "\<not> sublist ''<p>'' tail"
  shows "wrap_paragraphs (html_of_segments segs tail) = decorated_of_segments segs tail"
  using assms
proof (induction segs)
  case Nil
  then show ?case by (simp add: wrap_paragraphs_no_open)
next
  case (Cons seg segs)
  obtain pre inner where seg: "seg = (pre, inner)" by (cases seg)
  from Cons.prems seg have pre: "\<not> sublist ''<p>'' pre" and inner: "\<not> sublist ''</p>'' inner"
    by simp_all
  from Cons have IH: "wrap_paragraphs (html_of_segments segs tail) = decorated_of_segments segs tail"
    by simp
  have "wrap_paragraphs (html_of_segments (seg # segs) tail) =
        pre @ wrap_paragraphs (''<p>'' @ inner @ ''</p>'' @ html_of_segments segs tail)"
    unfolding seg html_of_segments.simps by (rule wrap_paragraphs_skip_pre [OF pre])
  also have "\<dots> = pre @ repl inner @ wrap_paragraphs (html_of_segments segs tail)"
    by (simp only: wrap_paragraphs_one [OF inner])
  finally show ?case by (simp add: seg IH)
qed

text \<open>Credits: what is cut off, and when.\<close>

lemma raw_credit_single_paragraph:
  assumes "py_strip (md credit) = ''<p>'' @ inner @ ''</p>''"
  shows "raw_credit md credit = inner"
proof -
  have "suffix ''</p>'' (''<p>'' @ inner @ ''</p>'')"
    by (metis append_assoc suffixI)
  with assms show ?thesis
    by (simp add: raw_credit_def slice_3_minus_4_def)
qed

lemma raw_credit_not_wrapped:
  assumes "\<not> prefix ''<p>'' (py_strip (md credit)) \<or> \<not> suffix ''</p>'' (py_strip (md credit))"
  shows "raw_credit md credit = py_strip (md credit)"
  using assms by (auto simp: raw_credit_def)

section \<open>Texts that are no JSON\<close>







lemma parse_value_Nil: "parse_value lim n d [] = Invalid"
  by (cases n) (simp_all add: parse_value.simps)






section \<open>Properties of the workflow\<close>



lemma after_simps [simp]: "after s (c, t) = (c, s # t)"
  by (simp add: after_def)

lemma calculate_nlp_post_id:
  "calculate_nlp lim rid p h = calculate_nlp lim rid p' h"
  by (simp add: calculate_nlp_def)

lemma nlp_step_failure:
  assumes "\<And>st resp rid.
      calculate_nlp (interp w CalculateNlp) (nlp_request_id w) post_id (nlp_http w) =
        Inr (st, resp, rid) \<Longrightarrow> \<not> nlp_succeeded resp"
  shows "nlp_step w d = (1, []) \<or> nlp_step w d = (1, [CalculateNlp])"
proof (cases "py_int w d")
  case None
  then show ?thesis by (simp add: nlp_step_def)
next
  case (Some p)
  show ?thesis
  proof (cases "calculate_nlp (interp w CalculateNlp) (nlp_request_id w) p (nlp_http w)")
    case (Inl e)
    with Some show ?thesis by (simp add: nlp_step_def)
  next
    case (Inr r)
    obtain st resp rid where r: "r = (st, resp, rid)"
      by (cases r)
    from Inr r
    have "calculate_nlp (interp w CalculateNlp) (nlp_request_id w) post_id (nlp_http w) =
        Inr (st, resp, rid)"
      by (simp add: calculate_nlp_post_id [of _ _ post_id _ p])
    then have "\<not> nlp_succeeded resp" by (rule assms)
    with Some Inr r show ?thesis by (simp add: nlp_step_def)
  qed
qed

lemma update_step_failure:
  assumes "\<And>st resp rid.
      calculate_nlp (interp w CalculateNlp) (nlp_request_id w) post_id (nlp_http w) =
        Inr (st, resp, rid) \<Longrightarrow> \<not> nlp_succeeded resp"
  shows "update_step w d \<in> {(1, []), (1, [UpdateContent]),
           (1, [UpdateContent, CalculateNlp])}"
proof -
  have "nlp_step w d = (1, []) \<or> nlp_step w d = (1, [CalculateNlp])"
    by (rule nlp_step_failure [of w post_id]) (erule assms)
  then consider "nlp_step w d = (1, [])" | "nlp_step w d = (1, [CalculateNlp])" by blast
  then show ?thesis
    by cases (simp_all add: update_step_def split: option.split put_verdict.split)
qed

lemma upload_step_failure:
  assumes "\<And>st resp rid.
      calculate_nlp (interp w CalculateNlp) (nlp_request_id w) post_id (nlp_http w) =
        Inr (st, resp, rid) \<Longrightarrow> \<not> nlp_succeeded resp"
  shows "upload_step w d \<in> {(1, [UploadImage]), (1, [UploadImage, UpdateContent]),
           (1, [UploadImage, UpdateContent, CalculateNlp])}"
proof -
  have "update_step w d \<in> {(1, []), (1, [UpdateContent]),
           (1, [UpdateContent, CalculateNlp])}"
    by (rule update_step_failure [of w post_id]) (erule assms)
  then consider "update_step w d = (1, [])" | "update_step w d = (1, [UpdateContent])"
    | "update_step w d = (1, [UpdateContent, CalculateNlp])" by blast
  then show ?thesis
    by cases (simp_all add: upload_step_def split: option.split json.split sum.split)
qed

lemma main_shape:
  "main w = (1, []) \<or> main w = (1, [CreateDraft]) \<or>
   (\<exists>d. main w = after CreateDraft (upload_step w d))"
proof (cases "content_file w")
  case None
  then show ?thesis by (simp add: main_def)
next
  case c: (Some article_content)
  show ?thesis
  proof (cases "draft_result w")
    case None
    with c show ?thesis by (simp add: main_def)
  next
    case (Some r)
    obtain status_code response_text where r: "r = (status_code, response_text)"
      by (cases r)
    show ?thesis
    proof (cases "process_json_response (interp w CreateDraft) response_text")
      case (Inl e)
      with c Some r show ?thesis by (simp add: main_def)
    next
      case (Inr parsed)
      show ?thesis
      proof (cases parsed)
        case None
        with c Some r Inr show ?thesis by (simp add: main_def)
      next
        case p: (Some draft_data)
        show ?thesis
        proof (cases "truthy draft_data")
          case False
          with c Some r Inr p show ?thesis by (simp add: main_def)
        next
          case True
          show ?thesis
          proof (cases draft_data)
            case (JObject kvs)
            show ?thesis
            proof (cases "dict_get kvs ''data''")
              case None
              with c Some r Inr p True JObject show ?thesis by (simp add: main_def)
            next
              case d: (Some data_id)
              show ?thesis
              proof (cases "truthy data_id")
                case False
                with c Some r Inr p True JObject d show ?thesis by (simp add: main_def)
              next
                case t: True
                with c Some r Inr p True JObject d
                have "main w = after CreateDraft (upload_step w data_id)"
                  by (simp add: main_def)
                then show ?thesis by blast
              qed
            qed
          qed (use c Some r Inr p True in \<open>simp_all add: main_def\<close>)
        qed
      qed
    qed
  qed
qed

lemma main_nlp_failure:
  assumes "\<And>st resp rid.
      calculate_nlp (interp w CalculateNlp) (nlp_request_id w) post_id (nlp_http w) =
        Inr (st, resp, rid) \<Longrightarrow> \<not> nlp_succeeded resp"
  shows "main w \<in> {(1, []), (1, [CreateDraft]), (1, [CreateDraft, UploadImage]),
           (1, [CreateDraft, UploadImage, UpdateContent]),
           (1, [CreateDraft, UploadImage, UpdateContent, CalculateNlp])}"
proof -
  have up: "upload_step w d \<in> {(1, [UploadImage]), (1, [UploadImage, UpdateContent]),
           (1, [UploadImage, UpdateContent, CalculateNlp])}" for d
    by (rule upload_step_failure [of w post_id]) (erule assms)
  from main_shape [of w]
  consider "main w = (1, [])" | "main w = (1, [CreateDraft])"
    | d where "main w = after CreateDraft (upload_step w d)" by blast
  then show ?thesis
  proof cases
    case 3
    from up [of d]
    consider "upload_step w d = (1, [UploadImage])"
      | "upload_step w d = (1, [UploadImage, UpdateContent])"
      | "upload_step w d = (1, [UploadImage, UpdateContent, CalculateNlp])" by blast
    then show ?thesis by cases (simp_all add: 3)
  qed simp_all
qed




subsection \<open>The draft marker in the decorated body\<close>

lemma html_of_segments_snoc:
  "html_of_segments (segs @ [(pre, inner)]) [] =
     html_of_segments segs pre @ ''<p>'' @ inner @ ''</p>''"
  by (induction segs) auto

lemma decorated_of_segments_snoc:
  "decorated_of_segments (segs @ [(pre, inner)]) [] = decorated_of_segments segs pre @ repl inner"
  by (induction segs) auto

lemma wrap_paragraphs_last_paragraph:
  assumes "\<forall>(pre, inner) \<in> set segs. \<not> sublist ''<p>'' pre \<and> \<not> sublist ''</p>'' inner"
    and "\<not> sublist ''<p>'' tail"
    and "\<not> sublist ''</p>'' marker"
  shows "wrap_paragraphs (html_of_segments segs tail @ ''<p>'' @ marker @ ''</p>'') =
         decorated_of_segments segs tail @ repl marker"
proof -
  have "\<forall>(pre, inner) \<in> set (segs @ [(tail, marker)]).
          \<not> sublist ''<p>'' pre \<and> \<not> sublist ''</p>'' inner"
    using assms by auto
  moreover have "\<not> sublist ''<p>'' []"
    by simp
  ultimately have "wrap_paragraphs (html_of_segments (segs @ [(tail, marker)]) []) =
      decorated_of_segments (segs @ [(tail, marker)]) []"
    by (rule wrap_paragraphs_segments)
  then show ?thesis
    by (simp only: html_of_segments_snoc decorated_of_segments_snoc)
qed

lemma marker_no_close:
  assumes "CHR ''<'' \<notin> set uuid"
  shows "\<not> sublist ''</p>'' (''[Draft ID: '' @ uuid @ '']'')"
proof
  assume "sublist ''</p>'' (''[Draft ID: '' @ uuid @ '']'')"
  then have "set ''</p>'' \<subseteq> set (''[Draft ID: '' @ uuid @ '']'')"
    by (rule set_mono_sublist)
  with assms show False by simp
qed

lemma decorated_marker_eq_iff:
  "decorated @ repl (''[Draft ID: '' @ u1 @ '']'') = decorated @ repl (''[Draft ID: '' @ u2 @ '']'')
     \<longleftrightarrow> u1 = u2"
  by (simp add: repl_def)

lemma unique_content_eq_iff:
  "unique_content e1 article_content = unique_content e2 article_content \<longleftrightarrow>
     draft_uuid e1 = draft_uuid e2"
  by (simp add: unique_content_def)

lemma draft_content_member:
  "map_of (draft_article_dict md env title article_credit image_link image_credit
             article_content) ''content'' =
     Some (PStr (create_image_block image_link (raw_credit md image_credit) @
                 article_credit_html (raw_credit md article_credit) @
                 wrap_paragraphs (md (unique_content env article_content)) @
                 style_block))"
  by (simp add: draft_article_dict_def build_article_json_def draft_final_content_def Let_def)

lemma draft_title_member:
  "map_of (draft_article_dict md env title article_credit image_link image_credit
             article_content) ''title'' =
     Some (PStr (title @ '' ['' @ unique_suffix env @ '']''))"
  by (simp add: draft_article_dict_def build_article_json_def unique_title_def)

lemma create_draft_request:
  assumes "\<not> md_raises image_credit"
    and "\<not> md_raises (unique_content env article_content)"
    and "\<not> md_raises article_credit"
  shows "snd (create_draft md md_raises api_base_url env net title article_credit image_link
                image_credit article_content) =
     [(api_base_url @ ''/post/draft'',
       draft_article_dict md env title article_credit image_link image_credit article_content)]"
  using assms by (simp add: create_draft_def Let_def split: http_result.split)

lemma create_draft_raises:
  assumes "md_raises image_credit \<or> md_raises (unique_content env article_content) \<or>
           md_raises article_credit"
  shows "create_draft md md_raises api_base_url env net title article_credit image_link
           image_credit article_content = (None, [])"
  using assms by (auto simp: create_draft_def Let_def)

section \<open>The claims\<close>

text \<open>
  Claim C1, as stated, at a Markdown output with a nested paragraph: the text rendered
  from the one-line quotation \<^verbatim>\<open>> q\<close> has no top-level paragraph (its only
  top-level element is the block quotation), yet one decorated block is produced.
\<close>

theorem C1_nested_paragraph_counterexample:
  "top_level_paragraphs
     (''<blockquote>'' @ [CHR 0x0A] @ ''<p>q</p>'' @ [CHR 0x0A] @ ''</blockquote>'') = 0
   \<and> decorated_blocks (wrap_paragraphs
     (''<blockquote>'' @ [CHR 0x0A] @ ''<p>q</p>'' @ [CHR 0x0A] @ ''</blockquote>'')) = 1"
  by (simp add: top_level_paragraphs_def decorated_blocks_def decorated_open_def repl_def
      void_tag_def)

text \<open>
  Claim C1 (amended): for every HTML text that consists of N paragraphs
  \<^verbatim>\<open><p>inner</p>\<close>, at any nesting depth, where no inner markup contains a closing
  paragraph tag and the text around the paragraphs contains no opening one,
  \<open>wrap_paragraphs\<close> returns the same text with each of the N paragraphs replaced by its
  decorated block: inner markup kept, order kept, surrounding text unchanged.
\<close>

theorem C1_wrap_paragraphs_segments:
  assumes "\<forall>(pre, inner) \<in> set segs. \<not> sublist ''<p>'' pre \<and> \<not> sublist ''</p>'' inner"
    and "\<not> sublist ''<p>'' tail"
  shows "wrap_paragraphs (html_of_segments segs tail) = decorated_of_segments segs tail"
  using assms by (rule wrap_paragraphs_segments)

theorem C1_wrap_paragraphs_segments_witness:
  "wrap_paragraphs ''<blockquote><p>q</p></blockquote><p>a <em>b</em></p>.'' =
     ''<blockquote>'' @ repl ''q'' @ ''</blockquote>'' @ repl ''a <em>b</em>'' @ ''.''"
  using C1_wrap_paragraphs_segments
    [of "[(''<blockquote>'', ''q''), (''</blockquote>'', ''a <em>b</em>'')]" "''.''"]
  by (simp add: sublist_Cons_right)

text \<open>
  Claim C4: \<open>validate_location\<close> passes exactly the four locations of the enumeration;
  for every other location \<open>make_publish\<close> raises a \<open>ValueError\<close> and has issued no
  request.
\<close>

theorem C4_location_validated_before_request:
  "(location \<in> {''Entire U.S'', ''Cambridge, MA'', ''Boston, MA'', ''Massachusetts State''}
      \<longrightarrow> validate_location location = Inr ()) \<and>
   (location \<notin> {''Entire U.S'', ''Cambridge, MA'', ''Boston, MA'', ''Massachusetts State''}
      \<longrightarrow> (\<exists>msg. validate_location location = Inl (ValueError msg)) \<and>
          (\<exists>msg. make_publish lim md md_raises api_base_url request_id net title author_name
                   author_url article_credit image_link image_credit article_content data_id
                   location is_title_rewrited is_ai_assisted = (Inl (ValueError msg), [])))"
  by (auto simp: validate_location_def allowed_locations_def make_publish_def)

theorem C4_location_validated_before_request_witness:
  "validate_location ''Boston, MA'' = Inr () \<and>
   (\<exists>msg. validate_location ''Paris'' = Inl (ValueError msg)) \<and>
   (\<exists>msg. make_publish default_limits (\<lambda>s. s) (\<lambda>s. False) ''https://x/api'' ''r1''
             (\<lambda>r. Response 200 ''{}'')
             ''Test Article'' ''Staff'' ''harvard.edu'' ''Staff'' ''https://x/img.jpg'' ''cr''
             ''body'' ''42'' ''Paris'' False False = (Inl (ValueError msg), []))"
  using C4_location_validated_before_request [of "''Boston, MA''"]
    C4_location_validated_before_request [of "''Paris''" default_limits "\<lambda>s. s"
      "\<lambda>s. False" "''https://x/api''" "''r1''"
      "\<lambda>r. Response 200 ''{}''" "''Test Article''" "''Staff''" "''harvard.edu''" "''Staff''"
      "''https://x/img.jpg''" "''cr''" "''body''" "''42''" False False]
  by simp





text \<open>
  Claim C9: in every run in which \<open>calculate_nlp\<close> does not return a response with
  both \<open>code\<close> equal to 0 and \<open>status\<close> equal to ``success'' (it returns another
  response, or raises), \<open>main\<close> exits with code 1, \<open>make_publish\<close> is not invoked, and
  the NLP step, when reached, is the last step of the run.
\<close>

theorem C9_nlp_failure_aborts_before_publish:
  assumes "\<forall>nlp_status nlp_response request_id.
      calculate_nlp (interp w CalculateNlp) (nlp_request_id w) post_id (nlp_http w) =
        Inr (nlp_status, nlp_response, request_id) \<longrightarrow> \<not> nlp_succeeded nlp_response"
  shows "fst (main w) = 1 \<and> Publish \<notin> set (snd (main w)) \<and>
         (CalculateNlp \<in> set (snd (main w)) \<longrightarrow>
            snd (main w) = [CreateDraft, UploadImage, UpdateContent, CalculateNlp])"
proof -
  from assms have "\<not> nlp_succeeded resp"
    if "calculate_nlp (interp w CalculateNlp) (nlp_request_id w) post_id (nlp_http w) =
        Inr (st, resp, rid)" for st resp rid
    using that by blast
  then have "main w \<in> {(1, []), (1, [CreateDraft]), (1, [CreateDraft, UploadImage]),
           (1, [CreateDraft, UploadImage, UpdateContent]),
           (1, [CreateDraft, UploadImage, UpdateContent, CalculateNlp])}"
    by (intro main_nlp_failure [of w post_id])
  then consider "main w = (1, [])" | "main w = (1, [CreateDraft])"
    | "main w = (1, [CreateDraft, UploadImage])"
    | "main w = (1, [CreateDraft, UploadImage, UpdateContent])"
    | "main w = (1, [CreateDraft, UploadImage, UpdateContent, CalculateNlp])" by blast
  then show ?thesis by cases simp_all
qed

lemma busy_world_nlp:
  "calculate_nlp (interp busy_world CalculateNlp) (nlp_request_id busy_world) 42 (nlp_http busy_world) =
     Inr (200, JObject [(ustr ''code'', JInt 7), (ustr ''message'', JString (ustr ''busy''))],
          ''r4'')"
  by code_simp

lemma busy_response_fails:
  "\<not> nlp_succeeded (JObject [(ustr ''code'', JInt 7), (ustr ''message'', JString (ustr ''busy''))])"
  by code_simp

lemma busy_world_reaches_nlp: "CalculateNlp \<in> set (snd (main busy_world))"
  by code_simp

theorem C9_nlp_failure_aborts_before_publish_witness:
  "calculate_nlp (interp busy_world CalculateNlp) (nlp_request_id busy_world) 42 (nlp_http busy_world) =
     Inr (200, JObject [(ustr ''code'', JInt 7), (ustr ''message'', JString (ustr ''busy''))],
          ''r4'') \<and>
   \<not> nlp_succeeded (JObject [(ustr ''code'', JInt 7), (ustr ''message'', JString (ustr ''busy''))]) \<and>
   main busy_world = (1, [CreateDraft, UploadImage, UpdateContent, CalculateNlp])"
proof -
  have "\<forall>nlp_status nlp_response request_id.
      calculate_nlp (interp busy_world CalculateNlp) (nlp_request_id busy_world) 42
        (nlp_http busy_world) = Inr (nlp_status, nlp_response, request_id) \<longrightarrow>
      \<not> nlp_succeeded nlp_response"
    using busy_response_fails by (simp add: busy_world_nlp)
  from C9_nlp_failure_aborts_before_publish [OF this]
    busy_world_nlp busy_response_fails busy_world_reaches_nlp
  show ?thesis by (simp add: prod_eq_iff)
qed






text \<open>
  Claim C8, as stated, at an HTML document answered with a status code other than 200:
  the response is classified by its status code, with no hint at an expired session,
  by \<open>validate_response\<close> and by the content-update check alike.  (At status 200 the
  content-update check also misses a doctype written in lower case.)
\<close>

theorem C8_html_with_error_status_counterexample:
  "is_html_response ''<!DOCTYPE html><html></html>'' \<and>
   validate_response default_limits 500 ''<!DOCTYPE html><html></html>'' =
     Inr (False, StatusFailed 500) \<and>
   check_put_response default_limits 500 ''<!DOCTYPE html><html></html>'' =
     PutStatusFailed 500 \<and>
   check_put_response default_limits 200 ''<!doctype html><body>Sign in</body>'' =
     PutParseFailed"
  by code_simp

text \<open>
  Claim C8 (amended): when the status code is 200 and the body is an HTML document, the
  response is classified as an expired session: by \<open>validate_response\<close> when the
  stripped body begins with \<^verbatim>\<open><!\<close> or contains \<^verbatim>\<open><html\<close> in any letter case, by
  the content-update check when the body contains \<^verbatim>\<open><html\<close> in any letter case or,
  stripped, begins with \<^verbatim>\<open><!DOCTYPE\<close>.  A body that is no such document and parses
  to an envelope whose \<open>code\<close> is not 0 is classified differently, as an API error that
  carries the message of the envelope.  With any status code other than 200 the
  response is classified by its status code, whatever the body.
\<close>

theorem C8_html_body_is_session_expired:
  "(is_html_response (py_strip body) \<longrightarrow>
      validate_response lim 200 body = Inr (False, HtmlSessionExpired)) \<and>
   (sublist ''<html'' (py_lower body) \<or> prefix ''<!DOCTYPE'' (py_strip body) \<longrightarrow>
      check_put_response lim 200 body = PutSessionExpired) \<and>
   (\<not> is_html_response (py_strip body) \<and>
    json_loads lim (py_strip body) = Parsed (JObject kvs) \<and>
    \<not> eq_zero (dict_get kvs ''code'') \<longrightarrow>
      validate_response lim 200 body =
        Inr (False, ApiError (dict_get kvs ''code'') (dict_get kvs ''message'')) \<and>
      validate_response lim 200 body \<noteq> Inr (False, HtmlSessionExpired)) \<and>
   (\<not> (sublist ''<html'' (py_lower body) \<or> prefix ''<!DOCTYPE'' (py_strip body)) \<and>
    json_loads lim body = Parsed (JObject kvs) \<and> \<not> eq_zero (dict_get kvs ''code'') \<longrightarrow>
      check_put_response lim 200 body = PutApiError (dict_get kvs ''message'') \<and>
      check_put_response lim 200 body \<noteq> PutSessionExpired) \<and>
   (status_code \<noteq> 200 \<longrightarrow>
      validate_response lim status_code body = Inr (False, StatusFailed status_code) \<and>
      check_put_response lim status_code body = PutStatusFailed status_code)"
  by (simp add: validate_response_def check_put_response_def)

lemma busy_body_facts:
  \<open>\<not> is_html_response (py_strip ''{"code": 7, "message": "busy"}'') \<and>
   json_loads default_limits (py_strip ''{"code": 7, "message": "busy"}'') =
     Parsed (JObject [(ustr ''code'', JInt 7), (ustr ''message'', JString (ustr ''busy''))]) \<and>
   \<not> eq_zero (dict_get [(ustr ''code'', JInt 7), (ustr ''message'', JString (ustr ''busy''))]
          ''code'') \<and>
   dict_get [(ustr ''code'', JInt 7), (ustr ''message'', JString (ustr ''busy''))] ''code'' =
     Some (JInt 7) \<and>
   dict_get [(ustr ''code'', JInt 7), (ustr ''message'', JString (ustr ''busy''))] ''message'' =
     Some (JString (ustr ''busy''))\<close>
  by code_simp

lemma login_page_facts:
  "is_html_response (py_strip ''<!DOCTYPE html><html></html>'') \<and>
   sublist ''<html'' (py_lower ''<!DOCTYPE html><html></html>'')"
  by code_simp

theorem C8_html_body_is_session_expired_witness:
  \<open>is_html_response (py_strip ''<!DOCTYPE html><html></html>'') \<and>
   validate_response default_limits 200 ''<!DOCTYPE html><html></html>'' =
     Inr (False, HtmlSessionExpired) \<and>
   check_put_response default_limits 200 ''<!DOCTYPE html><html></html>'' = PutSessionExpired \<and>
   \<not> is_html_response (py_strip ''{"code": 7, "message": "busy"}'') \<and>
   validate_response default_limits 200 ''{"code": 7, "message": "busy"}'' =
     Inr (False, ApiError (Some (JInt 7)) (Some (JString (ustr ''busy'')))) \<and>
   validate_response default_limits 503 ''{"code": 7, "message": "busy"}'' =
     Inr (False, StatusFailed 503)\<close>
proof -
  let ?kvs = \<open>[(ustr ''code'', JInt 7), (ustr ''message'', JString (ustr ''busy''))]\<close>
  from C8_html_body_is_session_expired [of \<open>''<!DOCTYPE html><html></html>''\<close> default_limits]
    login_page_facts
  have page: \<open>validate_response default_limits 200 ''<!DOCTYPE html><html></html>'' =
      Inr (False, HtmlSessionExpired) \<and>
    check_put_response default_limits 200 ''<!DOCTYPE html><html></html>'' = PutSessionExpired\<close>
    by blast
  from C8_html_body_is_session_expired
    [of \<open>''{"code": 7, "message": "busy"}''\<close> default_limits ?kvs 503]
    busy_body_facts
  have \<open>validate_response default_limits 200 ''{"code": 7, "message": "busy"}'' =
     Inr (False, ApiError (dict_get ?kvs ''code'') (dict_get ?kvs ''message''))\<close>
    by blast
  note raw = this
  have \<open>(503::int) \<noteq> 200\<close> by simp
  with C8_html_body_is_session_expired
    [of \<open>''{"code": 7, "message": "busy"}''\<close> default_limits ?kvs 503]
  have other: \<open>validate_response default_limits 503 ''{"code": 7, "message": "busy"}'' =
     Inr (False, StatusFailed 503)\<close>
    by blast
  have \<open>dict_get ?kvs ''code'' = Some (JInt 7)\<close>
    and \<open>dict_get ?kvs ''message'' = Some (JString (ustr ''busy''))\<close>
    using busy_body_facts by blast+
  with raw have busy: \<open>validate_response default_limits 200 ''{"code": 7, "message": "busy"}'' =
     Inr (False, ApiError (Some (JInt 7)) (Some (JString (ustr ''busy''))))\<close>
    by (simp only:)
  from page busy other login_page_facts busy_body_facts show ?thesis by blast
qed

text \<open>
  Claim C6: on the draft path \<open>create_draft\<close>, when the converter returns, issues one
  request, whose payload is built by \<open>build_article_json\<close> and whose \<open>content\<close> member
  is the image block, the article-credit paragraph, the decorated body and the style
  block, in this order.  On the publish path \<open>make_publish\<close>, called with its required
  fields and an allowed location, when the converter returns, issues one request, whose
  payload has as its \<open>content\<close> member the image block (empty when there is no image
  link), the decorated body, the empty paragraph and the style block, in this order;
  this payload does not depend on the article credit, and \<open>make_publish\<close> issues no
  request with any other content.
\<close>

theorem C6_content_order:
  "map_of (build_article_json md title article_credit image_link image_credit article_content)
     ''content'' =
     Some (PStr (create_image_block image_link (raw_credit md image_credit) @
                 article_credit_html (raw_credit md article_credit) @
                 wrap_paragraphs (md article_content) @
                 style_block)) \<and>
   (\<not> md_raises image_credit \<and> \<not> md_raises (unique_content env article_content) \<and>
    \<not> md_raises article_credit \<longrightarrow>
      snd (create_draft md md_raises api_base_url env net title article_credit image_link
             image_credit article_content) =
        [(api_base_url @ ''/post/draft'',
          build_article_json md (unique_title env title) article_credit image_link
            image_credit (unique_content env article_content))]) \<and>
   (title \<noteq> [] \<and> author_name \<noteq> [] \<and> article_content \<noteq> [] \<and> data_id \<noteq> [] \<and>
    location \<in> set allowed_locations \<and>
    \<not> md_raises image_credit \<and> \<not> md_raises article_content \<and> \<not> md_raises article_credit \<longrightarrow>
      snd (make_publish lim md md_raises api_base_url request_id net title author_name
             author_url article_credit image_link image_credit article_content data_id
             location is_title_rewrited is_ai_assisted) =
        [(api_base_url @ ''/post/publish/'' @ data_id,
          publish_payload md title article_credit image_link image_credit article_content
            location is_title_rewrited is_ai_assisted)]) \<and>
   map_of (publish_payload md title article_credit image_link image_credit article_content
             location is_title_rewrited is_ai_assisted) ''content'' =
     Some (PStr (publish_image_block image_link (raw_credit md image_credit) @
                 wrap_paragraphs (md article_content) @
                 empty_paragraph @
                 style_block)) \<and>
   (\<forall>req \<in> set (snd (make_publish lim md md_raises api_base_url request_id net title
                          author_name author_url article_credit image_link image_credit
                          article_content data_id location is_title_rewrited
                          is_ai_assisted)).
      map_of (snd req) ''content'' =
        Some (PStr (publish_image_block image_link (raw_credit md image_credit) @
                    wrap_paragraphs (md article_content) @
                    empty_paragraph @
                    style_block))) \<and>
   (image_link \<noteq> [] \<longrightarrow>
      publish_image_block image_link (raw_credit md image_credit) =
        create_image_block image_link (raw_credit md image_credit)) \<and>
   (image_link = [] \<longrightarrow> publish_image_block image_link (raw_credit md image_credit) = []) \<and>
   publish_payload md title article_credit image_link image_credit article_content location
     is_title_rewrited is_ai_assisted =
   publish_payload md title other_credit image_link image_credit article_content location
     is_title_rewrited is_ai_assisted"
proof -
  let ?sent = "snd (make_publish lim md md_raises api_base_url request_id net title
          author_name author_url article_credit image_link image_credit article_content
          data_id location is_title_rewrited is_ai_assisted)"
  let ?payload = "publish_payload md title article_credit image_link image_credit
      article_content location is_title_rewrited is_ai_assisted"
  have content: "map_of ?payload ''content'' =
      Some (PStr (publish_image_block image_link (raw_credit md image_credit) @
                  wrap_paragraphs (md article_content) @ empty_paragraph @ style_block))"
    by (simp add: publish_payload_def publish_final_content_def Let_def)
  have sent: "?sent = [] \<or> ?sent = [(api_base_url @ ''/post/publish/'' @ data_id, ?payload)]"
    by (simp add: make_publish_def Let_def
        split: sum.split http_result.split prod.split bool.split)
  have valid: "?sent = [(api_base_url @ ''/post/publish/'' @ data_id, ?payload)]"
    if "title \<noteq> [] \<and> author_name \<noteq> [] \<and> article_content \<noteq> [] \<and> data_id \<noteq> [] \<and>
        location \<in> set allowed_locations \<and>
        \<not> md_raises image_credit \<and> \<not> md_raises article_content \<and> \<not> md_raises article_credit"
    using that
    by (simp add: make_publish_def validate_location_def Let_def
        split: sum.split http_result.split prod.split bool.split)
  have every: "map_of (snd req) ''content'' =
        Some (PStr (publish_image_block image_link (raw_credit md image_credit) @
                    wrap_paragraphs (md article_content) @ empty_paragraph @ style_block))"
    if "req \<in> set ?sent" for req
    using that sent content by auto
  have draft: "snd (create_draft md md_raises api_base_url env net title article_credit
          image_link image_credit article_content) =
     [(api_base_url @ ''/post/draft'',
       build_article_json md (unique_title env title) article_credit image_link image_credit
         (unique_content env article_content))]"
    if "\<not> md_raises image_credit \<and> \<not> md_raises (unique_content env article_content) \<and>
        \<not> md_raises article_credit"
    using that
    by (simp add: create_draft_def draft_article_dict_def Let_def split: http_result.split)
  have first: "map_of (build_article_json md title article_credit image_link image_credit
        article_content) ''content'' =
     Some (PStr (create_image_block image_link (raw_credit md image_credit) @
                 article_credit_html (raw_credit md article_credit) @
                 wrap_paragraphs (md article_content) @ style_block))"
    by (simp add: build_article_json_def draft_final_content_def Let_def)
  have block: "(image_link \<noteq> [] \<longrightarrow>
      publish_image_block image_link (raw_credit md image_credit) =
        create_image_block image_link (raw_credit md image_credit)) \<and>
   (image_link = [] \<longrightarrow> publish_image_block image_link (raw_credit md image_credit) = [])"
    by (simp add: publish_image_block_def)
  have credit: "?payload =
   publish_payload md title other_credit image_link image_credit article_content location
     is_title_rewrited is_ai_assisted"
    by (simp add: publish_payload_def publish_final_content_def Let_def)
  from first draft valid content every block credit show ?thesis by blast
qed

lemma example_body: "wrap_paragraphs (example_md ''**bold** text'') =
    repl ''<strong>bold</strong> text''"
  by (simp add: example_md_def)

lemma example_credit: "raw_credit example_md ''Staff'' = ''Staff''"
  by code_simp

lemma example_valid:
  "''Test Article'' \<noteq> [] \<and> ''Staff'' \<noteq> [] \<and> ''**bold** text'' \<noteq> [] \<and> ''42'' \<noteq> [] \<and>
   ''Entire U.S'' \<in> set allowed_locations \<and> ''https://x/img.jpg'' \<noteq> []"
  by (simp add: allowed_locations_def)

lemma never_raises: "\<not> (\<lambda>s. False) credit"
  by simp

theorem C6_content_order_witness:
  \<open>''Test Article'' \<noteq> [] \<and> ''Staff'' \<noteq> [] \<and> ''**bold** text'' \<noteq> [] \<and> ''42'' \<noteq> [] \<and>
   ''Entire U.S'' \<in> set allowed_locations \<and> ''https://x/img.jpg'' \<noteq> [] \<and>
   snd (make_publish default_limits example_md (\<lambda>s. False) ''https://x/api'' ''r5''
          (\<lambda>r. Response 200 ''{"code": 0}'')
          ''Test Article'' ''Staff'' ''harvard.edu'' ''Staff'' ''https://x/img.jpg'' ''Staff''
          ''**bold** text'' ''42'' ''Entire U.S'' False False) =
     [(''https://x/api'' @ ''/post/publish/'' @ ''42'',
       publish_payload example_md ''Test Article'' ''Staff'' ''https://x/img.jpg'' ''Staff''
         ''**bold** text'' ''Entire U.S'' False False)] \<and>
   map_of (publish_payload example_md ''Test Article'' ''Staff'' ''https://x/img.jpg'' ''Staff''
       ''**bold** text'' ''Entire U.S'' False False) ''content'' =
     Some (PStr (create_image_block ''https://x/img.jpg'' ''Staff'' @
                 repl ''<strong>bold</strong> text'' @ empty_paragraph @ style_block)) \<and>
   snd (create_draft example_md (\<lambda>s. False) ''https://x/api''
          \<lparr>timestamp = 1700000000, random_int = 1234, unique_request_id = ''r1'',
           trace_id = ''t1'', draft_uuid = ''u1''\<rparr>
          (\<lambda>r. Response 200 ''{"code": 0, "data": 42}'')
          ''Test Article'' ''Staff'' ''https://x/img.jpg'' ''Staff'' ''**bold** text'') =
     [(''https://x/api'' @ ''/post/draft'',
       build_article_json example_md
         (unique_title \<lparr>timestamp = 1700000000, random_int = 1234, unique_request_id = ''r1'',
            trace_id = ''t1'', draft_uuid = ''u1''\<rparr> ''Test Article'')
         ''Staff'' ''https://x/img.jpg'' ''Staff''
         (unique_content \<lparr>timestamp = 1700000000, random_int = 1234, unique_request_id = ''r1'',
            trace_id = ''t1'', draft_uuid = ''u1''\<rparr> ''**bold** text''))] \<and>
   map_of (build_article_json example_md ''Test Article'' ''Staff'' ''https://x/img.jpg'' ''Staff''
       ''**bold** text'') ''content'' =
     Some (PStr (create_image_block ''https://x/img.jpg'' ''Staff'' @
                 article_credit_html ''Staff'' @
                 repl ''<strong>bold</strong> text'' @ style_block))\<close>
proof -
  note main = C6_content_order [of example_md "''Test Article''" "''Staff''"
      "''https://x/img.jpg''" "''Staff''" "''**bold** text''" "\<lambda>s. False"
      "\<lparr>timestamp = 1700000000, random_int = 1234, unique_request_id = ''r1'',
        trace_id = ''t1'', draft_uuid = ''u1''\<rparr>"
      "''https://x/api''"
      \<open>\<lambda>r. Response 200 ''{"code": 0, "data": 42}''\<close>]
  note pub = C6_content_order [of example_md "''Test Article''" "''Staff''"
      "''https://x/img.jpg''" "''Staff''" "''**bold** text''" "\<lambda>s. False" _
      "''https://x/api''"
      \<open>\<lambda>r. Response 200 ''{"code": 0}''\<close> "''Staff''" "''42''" "''Entire U.S''"
      default_limits "''r5''" "''harvard.edu''" False False]
  from pub example_valid never_raises
  have sent: \<open>snd (make_publish default_limits example_md (\<lambda>s. False) ''https://x/api'' ''r5''
          (\<lambda>r. Response 200 ''{"code": 0}'')
          ''Test Article'' ''Staff'' ''harvard.edu'' ''Staff'' ''https://x/img.jpg'' ''Staff''
          ''**bold** text'' ''42'' ''Entire U.S'' False False) =
     [(''https://x/api'' @ ''/post/publish/'' @ ''42'',
       publish_payload example_md ''Test Article'' ''Staff'' ''https://x/img.jpg'' ''Staff''
         ''**bold** text'' ''Entire U.S'' False False)]\<close>
    by blast
  from pub example_valid
  have \<open>map_of (publish_payload example_md ''Test Article'' ''Staff'' ''https://x/img.jpg''
       ''Staff'' ''**bold** text'' ''Entire U.S'' False False) ''content'' =
     Some (PStr (publish_image_block ''https://x/img.jpg'' (raw_credit example_md ''Staff'') @
                 wrap_paragraphs (example_md ''**bold** text'') @ empty_paragraph @
                 style_block))\<close>
    and \<open>publish_image_block ''https://x/img.jpg'' (raw_credit example_md ''Staff'') =
        create_image_block ''https://x/img.jpg'' (raw_credit example_md ''Staff'')\<close>
    by blast+
  then have content: \<open>map_of (publish_payload example_md ''Test Article'' ''Staff''
       ''https://x/img.jpg'' ''Staff'' ''**bold** text'' ''Entire U.S'' False False) ''content'' =
     Some (PStr (create_image_block ''https://x/img.jpg'' ''Staff'' @
                 repl ''<strong>bold</strong> text'' @ empty_paragraph @ style_block))\<close>
    by (simp only: example_body example_credit)
  from main never_raises
  have draft: \<open>snd (create_draft example_md (\<lambda>s. False) ''https://x/api''
          \<lparr>timestamp = 1700000000, random_int = 1234, unique_request_id = ''r1'',
           trace_id = ''t1'', draft_uuid = ''u1''\<rparr>
          (\<lambda>r. Response 200 ''{"code": 0, "data": 42}'')
          ''Test Article'' ''Staff'' ''https://x/img.jpg'' ''Staff'' ''**bold** text'') =
     [(''https://x/api'' @ ''/post/draft'',
       build_article_json example_md
         (unique_title \<lparr>timestamp = 1700000000, random_int = 1234, unique_request_id = ''r1'',
            trace_id = ''t1'', draft_uuid = ''u1''\<rparr> ''Test Article'')
         ''Staff'' ''https://x/img.jpg'' ''Staff''
         (unique_content \<lparr>timestamp = 1700000000, random_int = 1234, unique_request_id = ''r1'',
            trace_id = ''t1'', draft_uuid = ''u1''\<rparr> ''**bold** text''))]\<close>
    by blast
  from main
  have \<open>map_of (build_article_json example_md ''Test Article'' ''Staff'' ''https://x/img.jpg''
       ''Staff'' ''**bold** text'') ''content'' =
     Some (PStr (create_image_block ''https://x/img.jpg'' (raw_credit example_md ''Staff'') @
                 article_credit_html (raw_credit example_md ''Staff'') @
                 wrap_paragraphs (example_md ''**bold** text'') @ style_block))\<close>
    by blast
  then have first: \<open>map_of (build_article_json example_md ''Test Article'' ''Staff''
       ''https://x/img.jpg'' ''Staff'' ''**bold** text'') ''content'' =
     Some (PStr (create_image_block ''https://x/img.jpg'' ''Staff'' @
                 article_credit_html ''Staff'' @
                 repl ''<strong>bold</strong> text'' @ style_block))\<close>
    by (simp only: example_body example_credit)
  from example_valid sent content draft first show ?thesis by blast
qed

text \<open>
  Claim C2 at a credit of two paragraphs: the Markdown output of the credit
  \<^verbatim>\<open>a\n\nb\<close> is \<^verbatim>\<open><p>a</p>\n<p>b</p>\<close>; it starts with an opening and ends with a
  closing paragraph tag, so the first and the last tag are cut off and the credit
  paragraph is built around unbalanced markup.
\<close>

theorem C2_two_paragraph_credit_is_cut:
  \<open>raw_credit two_paragraph_md (''a'' @ [CHR 0x0A, CHR 0x0A] @ ''b'') =
     ''a</p>'' @ [CHR 0x0A] @ ''<p>b'' \<and>
   article_credit_html (raw_credit two_paragraph_md (''a'' @ [CHR 0x0A, CHR 0x0A] @ ''b'')) =
     ''<p class="NBAIEditor_Theme__paragraph" dir="ltr" style="text-align: start;"><span>a</p>''
     @ [CHR 0x0A] @ ''<p>b</span></p>''\<close>
  by code_simp

text \<open>
  Claim C5, as stated, at two calls of \<open>create_draft\<close> with the same input fields, made
  within the same second, that draw the same random number: the titles of the two
  payloads are equal, whether the generated draft markers differ or not; and when the
  generated markers are equal as well, so are the content bodies of the two payloads.
\<close>

theorem C5_equal_salt_counterexample:
  "map_of (draft_article_dict example_md
       \<lparr>timestamp = 1700000000, random_int = 1234, unique_request_id = ''r1'',
        trace_id = ''t1'', draft_uuid = ''u1''\<rparr>
       ''Test Article'' ''Staff'' ''https://x/img.jpg'' ''Staff'' ''**bold** text'') ''title'' =
   map_of (draft_article_dict example_md
       \<lparr>timestamp = 1700000000, random_int = 1234, unique_request_id = ''r2'',
        trace_id = ''t2'', draft_uuid = ''u2''\<rparr>
       ''Test Article'' ''Staff'' ''https://x/img.jpg'' ''Staff'' ''**bold** text'') ''title'' \<and>
   map_of (draft_article_dict example_md
       \<lparr>timestamp = 1700000000, random_int = 1234, unique_request_id = ''r1'',
        trace_id = ''t1'', draft_uuid = ''u1''\<rparr>
       ''Test Article'' ''Staff'' ''https://x/img.jpg'' ''Staff'' ''**bold** text'') ''title'' =
   map_of (draft_article_dict example_md
       \<lparr>timestamp = 1700000000, random_int = 1234, unique_request_id = ''r3'',
        trace_id = ''t3'', draft_uuid = ''u1''\<rparr>
       ''Test Article'' ''Staff'' ''https://x/img.jpg'' ''Staff'' ''**bold** text'') ''title'' \<and>
   map_of (draft_article_dict example_md
       \<lparr>timestamp = 1700000000, random_int = 1234, unique_request_id = ''r1'',
        trace_id = ''t1'', draft_uuid = ''u1''\<rparr>
       ''Test Article'' ''Staff'' ''https://x/img.jpg'' ''Staff'' ''**bold** text'') ''content'' =
   map_of (draft_article_dict example_md
       \<lparr>timestamp = 1700000000, random_int = 1234, unique_request_id = ''r3'',
        trace_id = ''t3'', draft_uuid = ''u1''\<rparr>
       ''Test Article'' ''Staff'' ''https://x/img.jpg'' ''Staff'' ''**bold** text'') ''content''"
  by (simp add: draft_article_dict_def build_article_json_def unique_title_def
      unique_suffix_def unique_content_def)

text \<open>
  Claim C5 (amended): each call of \<open>create_draft\<close>, when the converter returns, issues
  one request, whose payload is built from the salted title and the salted body.  For the same input fields, the
  titles of the payloads of two calls differ exactly when the calls differ in the time
  stamp or in the random number drawn (between 1000 and 9999).  The content bodies of
  the two payloads differ exactly when the decorated renderings of the two salted bodies
  differ, hence only when the generated draft markers differ, which is when the salted
  bodies differ.  For a converter that renders the salted body as the paragraphs of the
  body followed by the paragraph of the marker, and markers without \<^verbatim>\<open><\<close>, the content
  bodies differ exactly when the markers differ.
\<close>

theorem C5_salted_title_and_body:
  assumes "1000 \<le> random_int e1" "random_int e1 \<le> 9999"
    and "1000 \<le> random_int e2" "random_int e2 \<le> 9999"
  shows "(\<not> md_raises image_credit \<and> \<not> md_raises (unique_content e1 article_content) \<and>
          \<not> md_raises article_credit \<longrightarrow>
            snd (create_draft md md_raises api_base_url e1 net1 title article_credit image_link
                   image_credit article_content) =
              [(api_base_url @ ''/post/draft'',
                draft_article_dict md e1 title article_credit image_link image_credit
                  article_content)]) \<and>
         (\<not> md_raises image_credit \<and> \<not> md_raises (unique_content e2 article_content) \<and>
          \<not> md_raises article_credit \<longrightarrow>
            snd (create_draft md md_raises api_base_url e2 net2 title article_credit image_link
                   image_credit article_content) =
              [(api_base_url @ ''/post/draft'',
                draft_article_dict md e2 title article_credit image_link image_credit
                  article_content)]) \<and>
         (map_of (draft_article_dict md e1 title article_credit image_link image_credit
                    article_content) ''title'' \<noteq>
          map_of (draft_article_dict md e2 title article_credit image_link image_credit
                    article_content) ''title''
            \<longleftrightarrow> timestamp e1 \<noteq> timestamp e2 \<or> random_int e1 \<noteq> random_int e2) \<and>
         (map_of (draft_article_dict md e1 title article_credit image_link image_credit
                    article_content) ''content'' \<noteq>
          map_of (draft_article_dict md e2 title article_credit image_link image_credit
                    article_content) ''content''
            \<longleftrightarrow> wrap_paragraphs (md (unique_content e1 article_content)) \<noteq>
                wrap_paragraphs (md (unique_content e2 article_content))) \<and>
         (map_of (draft_article_dict md e1 title article_credit image_link image_credit
                    article_content) ''content'' \<noteq>
          map_of (draft_article_dict md e2 title article_credit image_link image_credit
                    article_content) ''content''
            \<longrightarrow> draft_uuid e1 \<noteq> draft_uuid e2) \<and>
         (unique_content e1 article_content \<noteq> unique_content e2 article_content
            \<longleftrightarrow> draft_uuid e1 \<noteq> draft_uuid e2) \<and>
         ((\<forall>e \<in> {e1, e2}.
             md (unique_content e article_content) =
               html_of_segments segs tail @ ''<p>'' @ (''[Draft ID: '' @ draft_uuid e @ '']'') @
               ''</p>'' \<and>
             CHR ''<'' \<notin> set (draft_uuid e)) \<and>
          (\<forall>(pre, inner) \<in> set segs. \<not> sublist ''<p>'' pre \<and> \<not> sublist ''</p>'' inner) \<and>
          \<not> sublist ''<p>'' tail \<longrightarrow>
            (map_of (draft_article_dict md e1 title article_credit image_link image_credit
                       article_content) ''content'' \<noteq>
             map_of (draft_article_dict md e2 title article_credit image_link image_credit
                       article_content) ''content''
               \<longleftrightarrow> draft_uuid e1 \<noteq> draft_uuid e2))"
proof -
  let ?title = "\<lambda>e. map_of (draft_article_dict md e title article_credit image_link image_credit
      article_content) ''title''"
  let ?content = "\<lambda>e. map_of (draft_article_dict md e title article_credit image_link
      image_credit article_content) ''content''"
  let ?decorated = "\<lambda>e. wrap_paragraphs (md (unique_content e article_content))"
  have titles: "?title e1 \<noteq> ?title e2 \<longleftrightarrow>
      timestamp e1 \<noteq> timestamp e2 \<or> random_int e1 \<noteq> random_int e2"
    using unique_suffix_eq_iff [OF assms] by (simp add: draft_title_member)
  have contents: "?content e1 \<noteq> ?content e2 \<longleftrightarrow> ?decorated e1 \<noteq> ?decorated e2"
    by (simp add: draft_content_member)
  have salted: "unique_content e1 article_content \<noteq> unique_content e2 article_content \<longleftrightarrow>
      draft_uuid e1 \<noteq> draft_uuid e2"
    by (simp add: unique_content_eq_iff)
  have needs: "draft_uuid e1 \<noteq> draft_uuid e2" if "?content e1 \<noteq> ?content e2"
  proof
    assume "draft_uuid e1 = draft_uuid e2"
    then have "unique_content e1 article_content = unique_content e2 article_content"
      by (simp add: unique_content_eq_iff)
    then have "?decorated e1 = ?decorated e2" by simp
    with contents that show False by simp
  qed
  have rendered: "?content e1 \<noteq> ?content e2 \<longleftrightarrow> draft_uuid e1 \<noteq> draft_uuid e2"
    if shape: "\<forall>e \<in> {e1, e2}.
             md (unique_content e article_content) =
               html_of_segments segs tail @ ''<p>'' @ (''[Draft ID: '' @ draft_uuid e @ '']'') @
               ''</p>'' \<and>
             CHR ''<'' \<notin> set (draft_uuid e)"
      and segs: "\<forall>(pre, inner) \<in> set segs. \<not> sublist ''<p>'' pre \<and> \<not> sublist ''</p>'' inner"
      and tail: "\<not> sublist ''<p>'' tail"
  proof -
    have "?decorated e =
        decorated_of_segments segs tail @ repl (''[Draft ID: '' @ draft_uuid e @ '']'')"
      if "e \<in> {e1, e2}" for e
    proof -
      from that shape
      have md: "md (unique_content e article_content) =
               html_of_segments segs tail @ ''<p>'' @ (''[Draft ID: '' @ draft_uuid e @ '']'') @
               ''</p>''"
        and "CHR ''<'' \<notin> set (draft_uuid e)"
        by blast+
      then have "\<not> sublist ''</p>'' (''[Draft ID: '' @ draft_uuid e @ '']'')"
        by (intro marker_no_close)
      from wrap_paragraphs_last_paragraph [OF segs tail this] md show ?thesis
        by (simp only:)
    qed
    then have "?decorated e1 =
        decorated_of_segments segs tail @ repl (''[Draft ID: '' @ draft_uuid e1 @ '']'')"
      and "?decorated e2 =
        decorated_of_segments segs tail @ repl (''[Draft ID: '' @ draft_uuid e2 @ '']'')"
      by blast+
    then have "?decorated e1 = ?decorated e2 \<longleftrightarrow> draft_uuid e1 = draft_uuid e2"
      by (simp only: decorated_marker_eq_iff)
    with contents show ?thesis by blast
  qed
  have issued: "snd (create_draft md md_raises api_base_url e net title article_credit
        image_link image_credit article_content) =
      [(api_base_url @ ''/post/draft'',
        draft_article_dict md e title article_credit image_link image_credit
          article_content)]"
    if "\<not> md_raises image_credit \<and> \<not> md_raises (unique_content e article_content) \<and>
        \<not> md_raises article_credit" for e net
    using that by (intro create_draft_request) blast+
  from titles contents needs salted rendered issued [of e1 net1] issued [of e2 net2]
  show ?thesis by blast
qed

lemma two_calls_salt:
  "1000 \<le> random_int first_call \<and> random_int first_call \<le> 9999 \<and>
   1000 \<le> random_int second_call \<and> random_int second_call \<le> 9999 \<and>
   timestamp first_call = timestamp second_call \<and>
   random_int first_call \<noteq> random_int second_call \<and>
   draft_uuid first_call \<noteq> draft_uuid second_call"
  by (simp add: first_call_def second_call_def)

lemma two_calls_rendered:
  "(\<forall>e \<in> {first_call, second_call}.
      paragraph_md (unique_content e ''**bold** text'') =
        html_of_segments [([], ''**bold** text'')] [CHR 0x0A] @ ''<p>'' @
        (''[Draft ID: '' @ draft_uuid e @ '']'') @ ''</p>'' \<and>
      CHR ''<'' \<notin> set (draft_uuid e)) \<and>
   (\<forall>(pre, inner) \<in> set [([], ''**bold** text'')].
      \<not> sublist ''<p>'' pre \<and> \<not> sublist ''</p>'' inner) \<and>
   \<not> sublist ''<p>'' [CHR 0x0A]"
  by code_simp

theorem C5_salted_title_and_body_witness:
  "1000 \<le> random_int first_call \<and> random_int first_call \<le> 9999 \<and>
   1000 \<le> random_int second_call \<and> random_int second_call \<le> 9999 \<and>
   timestamp first_call = timestamp second_call \<and>
   random_int first_call \<noteq> random_int second_call \<and>
   draft_uuid first_call \<noteq> draft_uuid second_call \<and>
   snd (create_draft paragraph_md (\<lambda>s. False) ''https://x/api'' first_call
          (\<lambda>r. RequestException)
          ''Test Article'' ''Staff'' ''https://x/img.jpg'' ''Staff'' ''**bold** text'') =
     [(''https://x/api'' @ ''/post/draft'',
       draft_article_dict paragraph_md first_call ''Test Article'' ''Staff''
         ''https://x/img.jpg'' ''Staff'' ''**bold** text'')] \<and>
   map_of (draft_article_dict paragraph_md first_call
       ''Test Article'' ''Staff'' ''https://x/img.jpg'' ''Staff'' ''**bold** text'') ''title'' \<noteq>
   map_of (draft_article_dict paragraph_md second_call
       ''Test Article'' ''Staff'' ''https://x/img.jpg'' ''Staff'' ''**bold** text'') ''title'' \<and>
   map_of (draft_article_dict paragraph_md first_call
       ''Test Article'' ''Staff'' ''https://x/img.jpg'' ''Staff'' ''**bold** text'') ''content'' \<noteq>
   map_of (draft_article_dict paragraph_md second_call
       ''Test Article'' ''Staff'' ''https://x/img.jpg'' ''Staff'' ''**bold** text'') ''content'' \<and>
   unique_content first_call ''**bold** text'' \<noteq> unique_content second_call ''**bold** text''"
proof -
  from two_calls_salt
  have bounds: "1000 \<le> random_int first_call" "random_int first_call \<le> 9999"
    "1000 \<le> random_int second_call" "random_int second_call \<le> 9999"
    by blast+
  have "\<not> (\<lambda>s. False) credit" for credit :: markdown
    by simp
  with C5_salted_title_and_body [OF bounds, of "\<lambda>s. False" "''Staff''" "''**bold** text''"
      "''Staff''" paragraph_md "''https://x/api''" "\<lambda>r. RequestException" "''Test Article''"
      "''https://x/img.jpg''" "\<lambda>r. RequestException" "[([], ''**bold** text'')]" "[CHR 0x0A]"]
    two_calls_salt two_calls_rendered
  show ?thesis by blast
qed


end
